theory Spec2Isabelle
  imports Complex_Main "HOL-Library.Product_Lexorder"
begin

section \<open>Dataset statistics engine (dataset/statistics.py)\<close>

text \<open>
  A shallow embedding of the statistics engine of the ISD backend. The pandas data frame
  is an ordered list of named columns over a shared row index; float64 values are exact
  reals extended by the two infinities and NaN, and NaN is pandas' missing value.
  Numerical library routines whose result no property below depends on (string-to-number
  coercion, mean, median, standard deviation, Pearson correlation, the Cox fit) are
  parameters of the model, collected in the record \<open>numerics\<close>.
\<close>

subsection \<open>Values, columns, tables\<close>

datatype pyfloat = Fin real | PosInf | NegInf | NaN

datatype cell = Num pyfloat | Str string

datatype dtype = Number_dtype | Bool_dtype | Object_dtype

record column =
  col_name :: string
  col_dtype :: dtype
  col_cells :: "cell list"

record table =
  columns :: "column list"
  n_rows :: nat

definition column_names :: "table \<Rightarrow> string list" where
  "column_names df = map col_name (columns df)"

text \<open>\<open>df.empty\<close>: some axis has length zero.\<close>

definition df_empty :: "table \<Rightarrow> bool" where
  "df_empty df \<longleftrightarrow> n_rows df = 0 \<or> columns df = []"

text \<open>A frame as \<open>read_csv\<close> builds it: unique column names, every column as long
  as the index.\<close>

definition wf_table :: "table \<Rightarrow> bool" where
  "wf_table df \<longleftrightarrow>
     distinct (column_names df) \<and>
     list_all (\<lambda>c. length (col_cells c) = n_rows df) (columns df)"

text \<open>\<open>df[name]\<close> for a name known to be a column.\<close>

fun get_column :: "column list \<Rightarrow> string \<Rightarrow> column option" where
  "get_column [] name = None"
| "get_column (c # cs) name = (if col_name c = name then Some c else get_column cs name)"

subsection \<open>Strings\<close>

definition lower_char :: "char \<Rightarrow> char" where
  "lower_char c =
     (let n = (of_char c :: nat)
      in if 65 \<le> n \<and> n \<le> 90 then char_of (n + 32) else c)"

definition lower :: "string \<Rightarrow> string" where
  "lower s = map lower_char s"

fun starts_with :: "string \<Rightarrow> string \<Rightarrow> bool" where
  "starts_with s [] = True"
| "starts_with [] (p # ps) = False"
| "starts_with (c # cs) (p # ps) = (c = p \<and> starts_with cs ps)"

text \<open>Python's \<open>sub in s\<close> on strings.\<close>

fun contains_str :: "string \<Rightarrow> string \<Rightarrow> bool" where
  "contains_str [] sub = (sub = [])"
| "contains_str (c # cs) sub = (starts_with (c # cs) sub \<or> contains_str cs sub)"

definition ends_with :: "string \<Rightarrow> string \<Rightarrow> bool" where
  "ends_with s suf = starts_with (rev s) (rev suf)"

subsection \<open>Constants\<close>

definition DATASET_STATS_SCHEMA_VERSION :: string where
  "DATASET_STATS_SCHEMA_VERSION = ''v2''"

definition MIN_HISTOGRAM_BINS :: int where
  "MIN_HISTOGRAM_BINS = 5"

definition MAX_HISTOGRAM_BINS :: int where
  "MAX_HISTOGRAM_BINS = 20"

subsection \<open>Column role resolution\<close>

fun find_column :: "table \<Rightarrow> string list \<Rightarrow> string set option \<Rightarrow> string option" where
  "find_column df [] exclude = None"
| "find_column df (name # candidates) exclude =
     (if name \<in> (case exclude of None \<Rightarrow> {} | Some ex \<Rightarrow> ex)
      then find_column df candidates exclude
      else if name \<in> set (column_names df) then Some name
      else find_column df candidates exclude)"

definition TIME_CANDIDATES :: "string list" where
  "TIME_CANDIDATES = [''time'', ''Time'', ''TIME'', ''duration'', ''survival_time'']"

definition CENSOR_CANDIDATES :: "string list" where
  "CENSOR_CANDIDATES =
     [''censored'', ''Censored'', ''event'', ''Event'', ''status'', ''Status'', ''failure'']"

text \<open>Python truthiness of an \<open>Optional[str]\<close>.\<close>

definition truthy :: "string option \<Rightarrow> bool" where
  "truthy s \<longleftrightarrow> (case s of None \<Rightarrow> False | Some n \<Rightarrow> n \<noteq> [])"

text \<open>
  Lines 179 to 193 of \<open>_compute_statistics_from_dataframe\<close>: the pair
  \<open>(time_col, censor_col)\<close> after both fallbacks. \<open>df.columns[0]\<close> is read only
  when the frame is not empty, where it exists.
\<close>

definition resolve_columns :: "table \<Rightarrow> string option \<times> string option" where
  "resolve_columns df =
     (let time_col = find_column df TIME_CANDIDATES None;
          censor_col = find_column df CENSOR_CANDIDATES
                         (if truthy time_col then Some {the time_col} else None);
          time_col = (if time_col = None \<and> \<not> df_empty df
                      then (case column_names df of [] \<Rightarrow> None | c # _ \<Rightarrow> Some c)
                      else time_col);
          censor_col = (if censor_col = None \<and> length (columns df) > 1
                        then (case filter (\<lambda>col. Some col \<noteq> time_col) (tl (column_names df)) of
                                [] \<Rightarrow> None
                              | c # _ \<Rightarrow> Some c)
                        else censor_col)
      in (time_col, censor_col))"

subsection \<open>Histogram bin count\<close>

text \<open>\<open>int(np.sqrt(sample_count))\<close>: the square root, truncated; the argument is
  positive there.\<close>

definition determine_histogram_bin_count :: "int \<Rightarrow> int" where
  "determine_histogram_bin_count sample_count =
     (if sample_count \<le> 0 then MIN_HISTOGRAM_BINS
      else let heuristic = \<lfloor>sqrt (of_int sample_count)\<rfloor>;
               heuristic = max MIN_HISTOGRAM_BINS heuristic;
               heuristic = min MAX_HISTOGRAM_BINS heuristic
           in heuristic)"

text \<open>The bin count as the specification words it:
  \<open>clamp(round(sqrt(valid_time_count)), MIN=5, MAX=20)\<close>.\<close>

definition spec_bin_count :: "int \<Rightarrow> int" where
  "spec_bin_count n = min 20 (max 5 (round (sqrt (of_int n))))"

subsection \<open>Numeric library routines taken as parameters\<close>

text \<open>
  \<open>coerce_str\<close> is \<open>pd.to_numeric(..., errors="coerce")\<close> on one string cell (NaN
  when the text is no number). \<open>pearson\<close> returns \<open>None\<close> for a NaN result.
  \<open>cox_p_value\<close> is \<open>None\<close> when lifelines is not installed; the fit itself
  returns \<open>None\<close> when it raises.
\<close>

record numerics =
  coerce_str :: "string \<Rightarrow> pyfloat"
  series_min :: "pyfloat list \<Rightarrow> pyfloat"
  series_max :: "pyfloat list \<Rightarrow> pyfloat"
  series_mean :: "pyfloat list \<Rightarrow> pyfloat"
  series_median :: "pyfloat list \<Rightarrow> pyfloat"
  series_std :: "pyfloat list \<Rightarrow> pyfloat"
  pearson :: "(pyfloat \<times> pyfloat) list \<Rightarrow> real option"
  cox_p_value :: "((cell \<times> cell \<times> int) list \<Rightarrow> pyfloat option) option"
  np_log :: "pyfloat \<Rightarrow> pyfloat"

subsection \<open>Series operations\<close>

datatype error = IntCastingNaNError | ValueError | KeyError | SuspiciousFileOperation

definition to_numeric :: "numerics \<Rightarrow> cell list \<Rightarrow> pyfloat list" where
  "to_numeric lib series = map (\<lambda>c. case c of Num v \<Rightarrow> v | Str s \<Rightarrow> coerce_str lib s) series"

definition notna :: "pyfloat \<Rightarrow> bool" where
  "notna v \<longleftrightarrow> v \<noteq> NaN"

definition dropna :: "pyfloat list \<Rightarrow> pyfloat list" where
  "dropna vs = filter notna vs"

fun cell_notna :: "cell \<Rightarrow> bool" where
  "cell_notna (Num v) = notna v"
| "cell_notna (Str s) = True"

text \<open>The float values of a column of numeric dtype (such a column holds no text).\<close>

fun cell_value :: "cell \<Rightarrow> pyfloat" where
  "cell_value (Num v) = v"
| "cell_value (Str s) = NaN"

text \<open>\<open>1 - x\<close> on a float.\<close>

fun one_minus :: "pyfloat \<Rightarrow> pyfloat" where
  "one_minus (Fin r) = Fin (1 - r)"
| "one_minus PosInf = NegInf"
| "one_minus NegInf = PosInf"
| "one_minus NaN = NaN"

text \<open>\<open>x * k\<close> for a float and an integer.\<close>

fun mul_int :: "pyfloat \<Rightarrow> int \<Rightarrow> pyfloat" where
  "mul_int (Fin r) k = Fin (r * of_int k)"
| "mul_int NaN k = NaN"
| "mul_int PosInf k = (if k = 0 then NaN else if 0 < k then PosInf else NegInf)"
| "mul_int NegInf k = (if k = 0 then NaN else if 0 < k then NegInf else PosInf)"

definition fillna0 :: "pyfloat \<Rightarrow> pyfloat" where
  "fillna0 v = (if v = NaN then Fin 0 else v)"

definition is_fin :: "pyfloat \<Rightarrow> bool" where
  "is_fin v \<longleftrightarrow> (case v of Fin r \<Rightarrow> True | _ \<Rightarrow> False)"

text \<open>Conversion of one finite float to an integer truncates toward zero.\<close>

definition trunc :: "pyfloat \<Rightarrow> int" where
  "trunc v = (case v of Fin r \<Rightarrow> (if 0 \<le> r then \<lfloor>r\<rfloor> else \<lceil>r\<rceil>) | _ \<Rightarrow> 0)"

text \<open>\<open>series.astype(int)\<close> raises on a value that is not finite.\<close>

definition astype_int :: "pyfloat list \<Rightarrow> error + int list" where
  "astype_int vs = (if list_all is_fin vs then Inr (map trunc vs) else Inl IntCastingNaNError)"

definition nunique :: "'a list \<Rightarrow> nat" where
  "nunique xs = length (remdups xs)"

definition positive :: "pyfloat \<Rightarrow> bool" where
  "positive v \<longleftrightarrow> (case v of Fin r \<Rightarrow> 0 < r | PosInf \<Rightarrow> True | _ \<Rightarrow> False)"

subsection \<open>Event indicator\<close>

definition derive_event_indicator :: "numerics \<Rightarrow> cell list \<Rightarrow> string \<Rightarrow> pyfloat list option" where
  "derive_event_indicator lib series column_name =
     (let numeric = to_numeric lib series;
          valid = dropna numeric
      in if valid = [] then None
         else if \<not> set valid \<subseteq> {Fin 0, Fin 1} then None
         else let column_name_lower = lower column_name;
                  indicator = (if contains_str column_name_lower ''censor''
                               then map one_minus numeric else numeric)
              in Some indicator)"

text \<open>Lines 232 to 234: the indicator derived from the resolved column, if there is one.\<close>

definition derived_indicator :: "numerics \<Rightarrow> table \<Rightarrow> string option \<Rightarrow> pyfloat list option" where
  "derived_indicator lib df censor_col =
     (if truthy censor_col \<and> the censor_col \<in> set (column_names df)
      then (case get_column (columns df) (the censor_col) of
              None \<Rightarrow> None
            | Some c \<Rightarrow> derive_event_indicator lib (col_cells c) (the censor_col))
      else None)"

text \<open>
  Lines 236 to 245: the integer indicator handed on, with the pair
  \<open>(num_events, num_censored)\<close> when it was derived. The derived series carries the
  frame's own index, so \<open>reindex(df.index)\<close> leaves it as it is.
\<close>

definition event_indicator_stage ::
  "numerics \<Rightarrow> table \<Rightarrow> string option \<Rightarrow> error + (int list \<times> (int \<times> int) option)" where
  "event_indicator_stage lib df censor_col =
     (case derived_indicator lib df censor_col of
        Some indicator \<Rightarrow>
          (case astype_int (map fillna0 indicator) of
             Inl e \<Rightarrow> Inl e
           | Inr event_indicator \<Rightarrow>
               Inr (event_indicator,
                    Some (int (length (filter (\<lambda>v. v = 1) event_indicator)),
                          int (length (filter (\<lambda>v. v = 0) event_indicator)))))
      | None \<Rightarrow> Inr (replicate (n_rows df) 1, None))"

subsection \<open>Event-time histogram\<close>

text \<open>
  Library model of \<open>numpy.histogram\<close>, after its documentation: equal-width bins from
  the least to the greatest value (widened by one half on each side when they coincide),
  every bin half-open except the last, which is closed; a range that is not finite and a
  bin count below one raise \<open>ValueError\<close>. The arithmetic is exact: floating-point
  rounding of the edges is not modelled, nor is numpy's refusal of a finite range too
  narrow or too wide for float64 (where the code returns the empty list), so the
  properties below are stated for the histograms that are produced.
\<close>

fun bin_counts :: "real list \<Rightarrow> real list \<Rightarrow> int list" where
  "bin_counts [lo, hi] xs = [int (length (filter (\<lambda>x. lo \<le> x \<and> x \<le> hi) xs))]"
| "bin_counts (lo # hi # es) xs =
     int (length (filter (\<lambda>x. lo \<le> x \<and> x < hi) xs)) # bin_counts (hi # es) xs"
| "bin_counts es xs = []"

definition linspace :: "real \<Rightarrow> real \<Rightarrow> nat \<Rightarrow> real list" where
  "linspace lo hi bins = map (\<lambda>i. lo + (hi - lo) * real i / real bins) [0..<bins + 1]"

definition finite_values :: "pyfloat list \<Rightarrow> real list" where
  "finite_values vs = concat (map (\<lambda>v. case v of Fin r \<Rightarrow> [r] | _ \<Rightarrow> []) vs)"

definition np_histogram :: "pyfloat list \<Rightarrow> int \<Rightarrow> error + (int list \<times> real list)" where
  "np_histogram a bins =
     (if bins < 1 then Inl ValueError
      else if \<not> list_all is_fin a then Inl ValueError
      else let xs = finite_values a;
               first_edge = (if xs = [] then 0 else Min (set xs));
               last_edge = (if xs = [] then 1 else Max (set xs));
               (first_edge, last_edge) =
                  (if first_edge = last_edge then (first_edge - 1 / 2, last_edge + 1 / 2)
                   else (first_edge, last_edge));
               bin_edges = linspace first_edge last_edge (nat bins)
           in Inr (bin_counts bin_edges xs, bin_edges))"

text \<open>\<open>numpy.histogram\<close> with the edges given: they must not decrease; values outside
  them are not counted.\<close>

definition np_histogram_edges :: "pyfloat list \<Rightarrow> real list \<Rightarrow> error + int list" where
  "np_histogram_edges a bin_edges =
     (if \<not> sorted bin_edges then Inl ValueError
      else Inr (bin_counts bin_edges (finite_values a)))"

record histogram_bin =
  bin_start :: real
  bin_end :: real
  count :: int
  events :: int
  censored :: int

text \<open>\<open>event_indicator.reindex(index).fillna(0)\<close> over positions: a position the
  indicator lacks is filled with 0.\<close>

definition reindex_fill :: "int list \<Rightarrow> nat list \<Rightarrow> int list" where
  "reindex_fill event_indicator idx =
     map (\<lambda>i. if i < length event_indicator then event_indicator ! i else 0) idx"

definition build_event_time_histogram :: "pyfloat list option \<Rightarrow> int list \<Rightarrow> histogram_bin list" where
  "build_event_time_histogram time_numeric event_indicator =
     (case time_numeric of
        None \<Rightarrow> []
      | Some tn \<Rightarrow>
          let valid_index = filter (\<lambda>i. notna (tn ! i)) [0..<length tn];
              valid_times = map (\<lambda>i. tn ! i) valid_index
          in if valid_times = [] then []
             else let events_mask = reindex_fill event_indicator valid_index;
                      bin_count = determine_histogram_bin_count (int (length valid_times))
                  in case np_histogram valid_times bin_count of
                       Inl exc \<Rightarrow> []
                     | Inr (total_counts, bin_edges) \<Rightarrow>
                         (case np_histogram_edges
                                 (map fst (filter (\<lambda>(t, m). m = 1) (zip valid_times events_mask)))
                                 bin_edges of
                            Inl exc \<Rightarrow> []
                          | Inr event_counts \<Rightarrow>
                              let censored_counts = map2 (-) total_counts event_counts
                              in map (\<lambda>idx. \<lparr>bin_start = bin_edges ! idx,
                                             bin_end = bin_edges ! (idx + 1),
                                             count = total_counts ! idx,
                                             events = event_counts ! idx,
                                             censored = censored_counts ! idx\<rparr>)
                                   [0..<length total_counts]))"

subsection \<open>Feature statistics\<close>

record feature_record =
  feature :: string
  feature_type :: string
  non_null_percent :: "real option"
  correlation_with_time :: "real option"
  abs_correlation :: "real option"
  mean_value :: "pyfloat option"
  std_dev :: "pyfloat option"
  cox_score :: "pyfloat option"
  cox_score_log :: "pyfloat option"

text \<open>
  Lines 409 to 436: the Cox score of one feature. Two steps of it lie outside the
  \<open>try\<close> block and can raise. \<open>join\<close> adds the indicator as a column named
  \<open>event\<close> and raises when the selection already has a column of that name. When the
  feature is the time column itself the selection has two columns of one name, so
  \<open>cox_df[feature]\<close> is a frame, and testing \<open>nunique() > 1\<close> of a frame raises;
  \<open>and\<close> reaches that test only when the two before it hold.
\<close>

definition cox_statistics ::
  "numerics \<Rightarrow> table \<Rightarrow> string \<Rightarrow> int list \<Rightarrow> column \<Rightarrow> bool \<Rightarrow> error + pyfloat option" where
  "cox_statistics lib df time_col event_indicator series is_numeric =
     (case cox_p_value lib of
        None \<Rightarrow> Inr None
      | Some fit \<Rightarrow>
          if is_numeric then
            (case get_column (columns df) time_col of
               None \<Rightarrow> Inl KeyError
             | Some tc \<Rightarrow>
                 if time_col = ''event'' then Inl ValueError
                 else if col_name series = ''event'' then Inl ValueError
                 else
                   let cox_df = filter (\<lambda>(t, f, e). cell_notna t \<and> cell_notna f)
                                  (zip (col_cells tc) (zip (col_cells series) event_indicator))
                   in if cox_df = [] then Inr None
                      else if 0 < sum_list (map (\<lambda>(t, f, e). e) cox_df)
                      then (if time_col = col_name series then Inl ValueError
                            else if 1 < nunique (map (\<lambda>(t, f, e). f) cox_df)
                            then Inr (fit cox_df) else Inr None)
                      else Inr None)
          else Inr None)"

text \<open>The body of the loop over the feature columns: the record of one column.\<close>

definition feature_row ::
  "numerics \<Rightarrow> table \<Rightarrow> string \<Rightarrow> int list \<Rightarrow> pyfloat list option \<Rightarrow> column
     \<Rightarrow> error + feature_record" where
  "feature_row lib df time_col event_indicator time_numeric series =
     (let total_rows = n_rows df;
          is_numeric = (col_dtype series = Number_dtype \<or> col_dtype series = Bool_dtype);
          non_null_count = length (filter cell_notna (col_cells series));
          non_null_pct = (if total_rows \<noteq> 0
                          then Some (real non_null_count / real total_rows * 100) else None);
          vals = map cell_value (col_cells series);
          mean_v = (if is_numeric \<and> non_null_count \<noteq> 0 then Some (series_mean lib vals) else None);
          std_v = (if is_numeric \<and> 1 < non_null_count then Some (series_std lib vals) else None);
          correlation_value =
            (if is_numeric then
               (case time_numeric of
                  None \<Rightarrow> None
                | Some tn \<Rightarrow>
                    let weighted_time = map2 mul_int tn event_indicator;
                        corr_df = filter (\<lambda>(t, f). notna t \<and> notna f) (zip weighted_time vals)
                    in if 2 \<le> length corr_df \<and> 1 < nunique (map snd corr_df)
                          \<and> 1 < nunique (map fst corr_df)
                       then pearson lib corr_df else None)
             else None)
      in case cox_statistics lib df time_col event_indicator series is_numeric of
           Inl exc \<Rightarrow> Inl exc
         | Inr cox \<Rightarrow>
             Inr \<lparr>feature = col_name series,
                  feature_type = (if is_numeric then ''numeric'' else ''categorical''),
                  non_null_percent = non_null_pct,
                  correlation_with_time = correlation_value,
                  abs_correlation = map_option abs correlation_value,
                  mean_value = mean_v,
                  std_dev = std_v,
                  cox_score = cox,
                  cox_score_log =
                    (case cox of
                       None \<Rightarrow> None
                     | Some p \<Rightarrow> if positive p then Some (np_log lib p) else None)\<rparr>)"

text \<open>The sort key \<open>(row["abs_correlation"] is None, -(row["abs_correlation"] or 0.0))\<close>,
  compared as Python compares tuples.\<close>

definition sort_key_row :: "feature_record \<Rightarrow> bool \<times> real" where
  "sort_key_row row =
     (abs_correlation row = None,
      - (case abs_correlation row of None \<Rightarrow> 0 | Some a \<Rightarrow> if a = 0 then 0 else a))"

text \<open>The loop that fills \<open>results\<close>, in the order of the feature columns; an
  exception in one pass ends it.\<close>

fun feature_rows ::
  "numerics \<Rightarrow> table \<Rightarrow> column list \<Rightarrow> string \<Rightarrow> int list \<Rightarrow> pyfloat list option
     \<Rightarrow> error + feature_record list" where
  "feature_rows lib df [] time_col event_indicator time_numeric = Inr []"
| "feature_rows lib df (series # rest) time_col event_indicator time_numeric =
     (case feature_row lib df time_col event_indicator time_numeric series of
        Inl exc \<Rightarrow> Inl exc
      | Inr row \<Rightarrow>
          (case feature_rows lib df rest time_col event_indicator time_numeric of
             Inl exc \<Rightarrow> Inl exc
           | Inr results \<Rightarrow> Inr (row # results)))"

text \<open>\<open>list.sort\<close> is stable, as \<open>sort_key\<close> is.\<close>

definition compute_feature_statistics ::
  "numerics \<Rightarrow> table \<Rightarrow> column list \<Rightarrow> string option \<Rightarrow> int list \<Rightarrow> pyfloat list option
     \<Rightarrow> error + feature_record list" where
  "compute_feature_statistics lib df feature_columns time_col event_indicator time_numeric =
     (case time_col of
        None \<Rightarrow> Inr []
      | Some tc \<Rightarrow>
          if feature_columns = [] then Inr []
          else if tc \<in> set (column_names df)
          then (case feature_rows lib df feature_columns tc event_indicator time_numeric of
                  Inl exc \<Rightarrow> Inl exc
                | Inr results \<Rightarrow> Inr (sort_key sort_key_row results))
          else Inr [])"

subsection \<open>Statistics of a frame\<close>

record general_stats_rec =
  num_samples :: int
  num_features :: int
  num_numeric_features :: int
  num_censored :: "int option"
  num_events :: "int option"
  time_min :: "pyfloat option"
  time_max :: "pyfloat option"
  time_mean :: "pyfloat option"
  time_median :: "pyfloat option"
  time_unit_label :: string
  total_columns :: int

record analysis =
  general_stats :: general_stats_rec
  feature_correlations :: "feature_record list"
  event_time_histogram :: "histogram_bin list"

text \<open>\<open>df.columns.tolist()[2:] if num_cols >= 2 else []\<close>, each name with its column.\<close>

definition feature_columns_of :: "table \<Rightarrow> column list" where
  "feature_columns_of df = (if 2 \<le> length (columns df) then drop 2 (columns df) else [])"

text \<open>Lines 217 to 221: the time column coerced to numbers, if it is resolved.\<close>

definition time_numeric_of :: "numerics \<Rightarrow> table \<Rightarrow> string option \<Rightarrow> pyfloat list option" where
  "time_numeric_of lib df time_col =
     (if truthy time_col \<and> the time_col \<in> set (column_names df)
      then (case get_column (columns df) (the time_col) of
              None \<Rightarrow> None
            | Some c \<Rightarrow> Some (to_numeric lib (col_cells c)))
      else None)"

definition compute_statistics_from_dataframe :: "numerics \<Rightarrow> table \<Rightarrow> string \<Rightarrow> error + analysis" where
  "compute_statistics_from_dataframe lib df time_unit =
     (let (time_col, censor_col) = resolve_columns df;
          num_rows = n_rows df;
          num_cols = length (columns df);
          feature_columns = feature_columns_of df;
          numeric_features = filter (\<lambda>c. col_dtype c = Number_dtype) feature_columns;
          time_numeric = time_numeric_of lib df time_col;
          time_series = (case time_numeric of None \<Rightarrow> [] | Some tn \<Rightarrow> dropna tn);
          stat = (\<lambda>f. if time_series \<noteq> [] then Some (f lib time_series) else None)
      in case event_indicator_stage lib df censor_col of
           Inl e \<Rightarrow> Inl e
         | Inr (event_indicator, counts) \<Rightarrow>
             (case compute_feature_statistics lib df feature_columns time_col
                     event_indicator time_numeric of
                Inl e \<Rightarrow> Inl e
              | Inr correlations \<Rightarrow>
             Inr \<lparr>general_stats =
                    \<lparr>num_samples = int num_rows,
                     num_features = int (length feature_columns),
                     num_numeric_features =
                       (if \<not> (num_rows = 0 \<or> numeric_features = [])
                        then int (length numeric_features) else 0),
                     num_censored = map_option snd counts,
                     num_events = map_option fst counts,
                     time_min = stat series_min,
                     time_max = stat series_max,
                     time_mean = stat series_mean,
                     time_median = stat series_median,
                     time_unit_label = time_unit,
                     total_columns = int num_cols\<rparr>,
                  feature_correlations = correlations,
                  event_time_histogram =
                    build_event_time_histogram time_numeric event_indicator\<rparr>))"

subsection \<open>Loading, caching and storing\<close>

record dataset =
  dataset_id :: nat
  file_path :: "string option"
  time_unit :: string

text \<open>What \<open>pd.read_csv\<close> does with a stored file: a frame, or one of the two
  exceptions the loader catches.\<close>

datatype read_outcome = Loaded table | FileNotFoundError | OtherException

text \<open>
  The file storage. \<open>get_full_path\<close> resolves a relative path against the storage
  root and raises \<open>SuspiciousFileOperation\<close> for a path that leaves the root.
  \<open>file_exists\<close> tells whether a relative path exists (an exception it raises is
  caught by the loader like a missing file, so it counts as \<open>False\<close>), and
  \<open>read_csv\<close> is the outcome of reading a full path with a given separator.
\<close>

record storage =
  get_full_path :: "string \<Rightarrow> error + string"
  file_exists :: "string \<Rightarrow> bool"
  read_csv :: "string \<Rightarrow> char \<Rightarrow> read_outcome"

text \<open>The separator chosen by the suffix of the path: a tab for \<open>.tsv\<close>, else a comma.\<close>

definition separator_of :: "string \<Rightarrow> char" where
  "separator_of path = (if ends_with (lower path) ''.tsv'' then CHR 0x09 else CHR '','')"

text \<open>The call of \<open>get_full_path\<close> (line 140) stands before the \<open>try\<close>: what it
  raises leaves the loader, while everything after it is caught.\<close>

definition read_dataset_into_dataframe :: "storage \<Rightarrow> dataset \<Rightarrow> error + table option" where
  "read_dataset_into_dataframe st ds =
     (case file_path ds of
        None \<Rightarrow> Inr None
      | Some path \<Rightarrow>
          if path = [] then Inr None
          else (case get_full_path st path of
                  Inl exc \<Rightarrow> Inl exc
                | Inr full_path \<Rightarrow>
                    if file_exists st path
                    then (case read_csv st full_path (separator_of path) of
                            Loaded df \<Rightarrow> Inr (Some df)
                          | FileNotFoundError \<Rightarrow> Inr None
                          | OtherException \<Rightarrow> Inr None)
                    else Inr None))"

record stats_row = analysis +
  schema_version :: string
  computed_at :: nat

text \<open>The table of statistics rows, one per dataset at most, keyed by the dataset.\<close>

type_synonym stats_store = "nat \<rightharpoonup> stats_row"

record dataset_statistics_result =
  stats :: stats_row
  dataframe :: "table option"

definition empty_general_stats :: "string \<Rightarrow> general_stats_rec" where
  "empty_general_stats unit =
     \<lparr>num_samples = 0, num_features = 0, num_numeric_features = 0,
      num_censored = None, num_events = None,
      time_min = None, time_max = None, time_mean = None, time_median = None,
      time_unit_label = unit, total_columns = 0\<rparr>"

text \<open>Line 88: the frame passed in, or else the one read from storage.\<close>

definition loaded_frame :: "storage \<Rightarrow> dataset \<Rightarrow> table option \<Rightarrow> error + table option" where
  "loaded_frame st ds dataframe_arg =
     (case dataframe_arg of
        Some d \<Rightarrow> Inr (Some d)
      | None \<Rightarrow> read_dataset_into_dataframe st ds)"

text \<open>
  \<open>update_or_create\<close> replaces the row of the dataset; \<open>computed_at\<close> is stamped
  with the clock value \<open>now\<close>. The result carries the frame used, or an empty frame.
\<close>

definition calculate_and_store_dataset_statistics ::
  "numerics \<Rightarrow> storage \<Rightarrow> nat \<Rightarrow> stats_store \<Rightarrow> dataset \<Rightarrow> table option
     \<Rightarrow> error + (dataset_statistics_result \<times> stats_store)" where
  "calculate_and_store_dataset_statistics lib st now db ds dataframe_arg =
     (case loaded_frame st ds dataframe_arg of
        Inl exc \<Rightarrow> Inl exc
      | Inr df \<Rightarrow>
          let computed =
                (if df = None \<or> df_empty (the df)
                 then Inr \<lparr>general_stats = empty_general_stats (time_unit ds),
                           feature_correlations = [],
                           event_time_histogram = []\<rparr>
                 else compute_statistics_from_dataframe lib (the df) (time_unit ds))
          in case computed of
               Inl e \<Rightarrow> Inl e
             | Inr a \<Rightarrow>
                 let row = \<lparr>general_stats = general_stats a,
                            feature_correlations = feature_correlations a,
                            event_time_histogram = event_time_histogram a,
                            schema_version = DATASET_STATS_SCHEMA_VERSION,
                            computed_at = now\<rparr>
                 in Inr (\<lparr>stats = row,
                          dataframe = Some (case df of Some d \<Rightarrow> d
                                            | None \<Rightarrow> \<lparr>columns = [], n_rows = 0\<rparr>)\<rparr>,
                         db(dataset_id ds \<mapsto> row)))"

definition ensure_dataset_statistics ::
  "numerics \<Rightarrow> storage \<Rightarrow> nat \<Rightarrow> stats_store \<Rightarrow> dataset \<Rightarrow> bool \<Rightarrow> table option \<Rightarrow> bool
     \<Rightarrow> error + (dataset_statistics_result \<times> stats_store)" where
  "ensure_dataset_statistics lib st now db ds force_recalculate dataframe_arg include_dataframe =
     (case db (dataset_id ds) of
        Some existing \<Rightarrow>
          if \<not> force_recalculate \<and> schema_version existing = DATASET_STATS_SCHEMA_VERSION
          then (case (if dataframe_arg = None \<and> include_dataframe
                      then read_dataset_into_dataframe st ds else Inr dataframe_arg) of
                  Inl exc \<Rightarrow> Inl exc
                | Inr df \<Rightarrow> Inr (\<lparr>stats = existing, dataframe = df\<rparr>, db))
          else calculate_and_store_dataset_statistics lib st now db ds dataframe_arg
      | None \<Rightarrow> calculate_and_store_dataset_statistics lib st now db ds dataframe_arg)"


subsection \<open>Sample frames\<close>

definition num_col :: "string \<Rightarrow> real list \<Rightarrow> column" where
  "num_col name vs = \<lparr>col_name = name, col_dtype = Number_dtype, col_cells = map (\<lambda>v. Num (Fin v)) vs\<rparr>"

text \<open>A frame whose first column is named \<open>event\<close> and that has no time-named column.\<close>

definition df_event_first :: table where
  "df_event_first = \<lparr>columns = [num_col ''event'' [1, 0], num_col ''x'' [5, 7]], n_rows = 2\<rparr>"

text \<open>A stand-in for the numeric routines, to evaluate the model on sample frames.\<close>

definition stub_numerics :: numerics where
  "stub_numerics =
     \<lparr>coerce_str = (\<lambda>s. if s = ''0'' then Fin 0 else if s = ''1'' then Fin 1 else NaN),
      series_min = (\<lambda>vs. NaN), series_max = (\<lambda>vs. NaN),
      series_mean = (\<lambda>vs. NaN), series_median = (\<lambda>vs. NaN), series_std = (\<lambda>vs. NaN),
      pearson = (\<lambda>ps. case ps of (t, Fin f) # _ \<Rightarrow> Some (max (- 1) (min 1 f)) | _ \<Rightarrow> None),
      cox_p_value = None,
      np_log = (\<lambda>v. v)\<rparr>"

text \<open>The frame of the repository's own API test:
  \<open>time,censored,feature_a / 10,1,0.5 / 15,0,1.5 / 20,1,3.0\<close>.\<close>

definition df_scenario_a :: table where
  "df_scenario_a =
     \<lparr>columns = [num_col ''time'' [10, 15, 20], num_col ''censored'' [1, 0, 1],
                 num_col ''feature_a'' [1 / 2, 3 / 2, 3]],
      n_rows = 3\<rparr>"

text \<open>A status column with one event, one missing entry and one entry that is no number.\<close>

definition df_missing_event :: table where
  "df_missing_event =
     \<lparr>columns = [num_col ''time'' [10, 15, 20],
                 \<lparr>col_name = ''status'', col_dtype = Object_dtype,
                  col_cells = [Str ''1'', Num NaN, Str ''lost'']\<rparr>],
      n_rows = 3\<rparr>"

text \<open>A status column with three distinct values.\<close>

definition df_three_states :: table where
  "df_three_states =
     \<lparr>columns = [num_col ''time'' [10, 15, 20], num_col ''status'' [0, 1, 2]], n_rows = 3\<rparr>"

text \<open>A storage rooted at \<open>/media/\<close> that holds no file: a relative path that
  starts by climbing out of the root is refused.\<close>

definition empty_storage :: storage where
  "empty_storage =
     \<lparr>get_full_path = (\<lambda>p. if starts_with p ''../'' then Inl SuspiciousFileOperation
                            else Inr (''/media/'' @ p)),
      file_exists = (\<lambda>p. False),
      read_csv = (\<lambda>p sep. FileNotFoundError)\<rparr>"

definition sample_dataset :: dataset where
  "sample_dataset =
     \<lparr>dataset_id = 1, file_path = Some ''datasets/2025/01/ab12cd34_stats.csv'', time_unit = ''day''\<rparr>"

text \<open>A dataset whose stored path was edited to point outside the storage root.\<close>

definition outside_dataset :: dataset where
  "outside_dataset = \<lparr>dataset_id = 2, file_path = Some ''../outside.csv'', time_unit = ''day''\<rparr>"

text \<open>A cached statistics row of the current schema version.\<close>

definition cached_row :: stats_row where
  "cached_row =
     \<lparr>general_stats = empty_general_stats ''day'' \<lparr>num_samples := 3, total_columns := 3\<rparr>,
      feature_correlations = [],
      event_time_histogram = [],
      schema_version = ''v2'',
      computed_at = 7\<rparr>"

text \<open>A frame with one text feature and two numeric features.\<close>

definition df_features :: table where
  "df_features =
     \<lparr>columns = [num_col ''time'' [10, 15, 20], num_col ''censored'' [1, 0, 1],
                 \<lparr>col_name = ''notes'', col_dtype = Object_dtype,
                  col_cells = [Str ''a'', Str ''b'', Num NaN]\<rparr>,
                 num_col ''f1'' [1 / 5, 1, 2],
                 num_col ''f2'' [9 / 10, 3, 4]],
      n_rows = 3\<rparr>"

subsection \<open>Auxiliary notions for the proofs\<close>

text \<open>The values a derived indicator can hold before missing entries are filled.\<close>

definition zero_one_nan :: "pyfloat \<Rightarrow> bool" where
  "zero_one_nan v \<longleftrightarrow> v = Fin 0 \<or> v = Fin 1 \<or> v = NaN"

text \<open>The integer such a value becomes after \<open>fillna(0).astype(int)\<close>.\<close>

definition as_bit :: "pyfloat \<Rightarrow> int" where
  "as_bit v = (if v = Fin 1 then 1 else 0)"

section \<open>Properties\<close>

lemma floor_sqrt_eq:
  assumes "0 \<le> k" "k * k \<le> n" "n < (k + 1) * (k + 1)"
  shows "\<lfloor>sqrt (of_int n)\<rfloor> = (k::int)"
proof -
  have n0: "0 \<le> n" using assms(1,2) by (meson mult_nonneg_nonneg order_trans)
  have "(of_int k)\<^sup>2 \<le> (of_int n :: real)"
    using assms(2) by (metis of_int_le_iff of_int_mult power2_eq_square)
  then have lo: "of_int k \<le> sqrt (of_int n)"
    using assms(1) by (simp add: real_le_rsqrt)
  have "(of_int n :: real) < (of_int (k + 1))\<^sup>2"
    using assms(3) by (metis of_int_less_iff of_int_mult power2_eq_square)
  then have hi: "sqrt (of_int n) < of_int (k + 1)"
    using assms(1) by (simp add: real_less_lsqrt)
  show ?thesis using lo hi by (simp add: floor_eq_iff)
qed

subsection \<open>Columns and the event indicator\<close>

lemma get_column_mem: "get_column cs name = Some c \<Longrightarrow> c \<in> set cs \<and> col_name c = name"
  by (induction cs) (auto split: if_splits)

lemma get_column_Some:
  "name \<in> set (map col_name cs) \<Longrightarrow> \<exists>c. get_column cs name = Some c"
  by (induction cs) auto

lemma wf_table_length:
  "wf_table df \<Longrightarrow> get_column (columns df) name = Some c \<Longrightarrow> length (col_cells c) = n_rows df"
  by (auto simp: wf_table_def list_all_iff dest: get_column_mem)

lemma dropna_zero_one:
  "set (dropna vs) \<subseteq> {Fin 0, Fin 1} \<Longrightarrow> list_all zero_one_nan vs"
  by (auto simp: dropna_def notna_def zero_one_nan_def list_all_iff)

lemma one_minus_zero_one: "zero_one_nan v \<Longrightarrow> zero_one_nan (one_minus v)"
  by (auto simp: zero_one_nan_def)

lemma derive_event_indicator_Some:
  "derive_event_indicator lib series name = Some ind \<longleftrightarrow>
     dropna (to_numeric lib series) \<noteq> [] \<and>
     set (dropna (to_numeric lib series)) \<subseteq> {Fin 0, Fin 1} \<and>
     ind = (if contains_str (lower name) ''censor''
            then map one_minus (to_numeric lib series) else to_numeric lib series)"
  by (auto simp: derive_event_indicator_def Let_def)

lemma derive_event_indicator_None:
  "derive_event_indicator lib series name = None \<longleftrightarrow>
     dropna (to_numeric lib series) = [] \<or>
     \<not> set (dropna (to_numeric lib series)) \<subseteq> {Fin 0, Fin 1}"
  by (auto simp: derive_event_indicator_def Let_def)

lemma derive_event_indicator_values:
  assumes "derive_event_indicator lib series name = Some ind"
  shows "list_all zero_one_nan ind \<and> length ind = length series"
proof -
  have z: "list_all zero_one_nan (to_numeric lib series)"
    using assms by (simp add: derive_event_indicator_Some dropna_zero_one)
  then have "list_all zero_one_nan (map one_minus (to_numeric lib series))"
    by (simp add: list_all_iff one_minus_zero_one)
  moreover have "length (to_numeric lib series) = length series" by (simp add: to_numeric_def)
  ultimately show ?thesis using assms z by (auto simp: derive_event_indicator_Some)
qed

lemma astype_int_zero_one:
  "list_all zero_one_nan ind \<Longrightarrow> astype_int (map fillna0 ind) = Inr (map as_bit ind)"
  by (auto simp: astype_int_def list_all_iff zero_one_nan_def fillna0_def is_fin_def trunc_def as_bit_def)

lemma count_bits:
  "int (length (filter (\<lambda>v. v = 1) (map as_bit ind))) + int (length (filter (\<lambda>v. v = 0) (map as_bit ind)))
     = int (length ind)"
  by (induction ind) (auto simp: as_bit_def)

lemma stage_derived:
  assumes "derived_indicator lib df cc = Some ind" "list_all zero_one_nan ind"
  shows "event_indicator_stage lib df cc =
           Inr (map as_bit ind,
                Some (int (length (filter (\<lambda>v. v = 1) (map as_bit ind))),
                      int (length (filter (\<lambda>v. v = 0) (map as_bit ind)))))"
  using assms by (simp add: event_indicator_stage_def astype_int_zero_one)

lemma stage_not_derived:
  "derived_indicator lib df cc = None \<Longrightarrow>
   event_indicator_stage lib df cc = Inr (replicate (n_rows df) 1, None)"
  by (simp add: event_indicator_stage_def)

lemma derived_indicator_values:
  assumes "wf_table df" "derived_indicator lib df cc = Some ind"
  shows "list_all zero_one_nan ind \<and> length ind = n_rows df"
proof -
  from assms(2) obtain c where c: "get_column (columns df) (the cc) = Some c"
    and d: "derive_event_indicator lib (col_cells c) (the cc) = Some ind"
    by (auto simp: derived_indicator_def split: if_splits option.splits)
  show ?thesis using derive_event_indicator_values[OF d] wf_table_length[OF assms(1) c] by simp
qed


lemma compute_fields:
  assumes "event_indicator_stage lib df (snd (resolve_columns df)) = Inr (ei, counts)"
    and "compute_statistics_from_dataframe lib df tu = Inr a"
  shows "num_samples (general_stats a) = int (n_rows df) \<and>
         num_events (general_stats a) = map_option fst counts \<and>
         num_censored (general_stats a) = map_option snd counts \<and>
         compute_feature_statistics lib df (feature_columns_of df) (fst (resolve_columns df)) ei
           (time_numeric_of lib df (fst (resolve_columns df))) = Inr (feature_correlations a) \<and>
         event_time_histogram a =
           build_event_time_histogram (time_numeric_of lib df (fst (resolve_columns df))) ei"
  using assms
  by (auto simp: compute_statistics_from_dataframe_def Let_def split_beta split: sum.splits)

lemma compute_returns:
  assumes "event_indicator_stage lib df (snd (resolve_columns df)) = Inr (ei, counts)"
    and "compute_feature_statistics lib df (feature_columns_of df) (fst (resolve_columns df)) ei
           (time_numeric_of lib df (fst (resolve_columns df))) = Inr fc"
  shows "\<exists>a. compute_statistics_from_dataframe lib df tu = Inr a"
  using assms by (simp add: compute_statistics_from_dataframe_def Let_def split_beta)

lemma feature_rows_without_cox:
  "cox_p_value lib = None \<Longrightarrow> \<exists>rows. feature_rows lib df fcs tc ei tn = Inr rows"
proof (induction fcs)
  case Nil
  then show ?case by simp
next
  case (Cons c fcs)
  have "\<exists>row. feature_row lib df tc ei tn c = Inr row"
    using Cons.prems by (simp add: feature_row_def cox_statistics_def Let_def)
  then show ?case using Cons by auto
qed

lemma feature_statistics_without_cox:
  "cox_p_value lib = None \<Longrightarrow> \<exists>fc. compute_feature_statistics lib df fcs tcol ei tn = Inr fc"
proof (cases tcol)
  case None
  then show ?thesis by (simp add: compute_feature_statistics_def)
next
  case (Some tc)
  assume "cox_p_value lib = None"
  then obtain rows where "feature_rows lib df fcs tc ei tn = Inr rows"
    using feature_rows_without_cox by blast
  then show ?thesis using Some by (simp add: compute_feature_statistics_def)
qed

text \<open>With the Cox fit available, a numeric feature column named \<open>event\<close> makes
  the feature statistics raise.\<close>

lemma feature_named_event_raises:
  assumes "cox_p_value lib = Some fit" "get_column (columns df) tc = Some c"
    and "col_name series = ''event''" "col_dtype series = Number_dtype"
  shows "feature_row lib df tc ei tn series = Inl ValueError"
  using assms by (simp add: feature_row_def cox_statistics_def Let_def)

lemma stage_returns:
  "\<exists>ei counts. event_indicator_stage lib df cc = Inr (ei, counts)"
proof (cases "derived_indicator lib df cc")
  case None
  then show ?thesis by (simp add: event_indicator_stage_def)
next
  case (Some ind)
  have "list_all zero_one_nan ind"
  proof (cases "get_column (columns df) (the cc)")
    case None
    then show ?thesis using Some by (simp add: derived_indicator_def split: if_splits)
  next
    case c: (Some c)
    then have "derive_event_indicator lib (col_cells c) (the cc) = Some ind"
      using Some by (simp add: derived_indicator_def split: if_splits)
    then show ?thesis using derive_event_indicator_values by blast
  qed
  then show ?thesis using Some by (simp add: event_indicator_stage_def astype_int_zero_one)
qed

text \<open>Without the Cox fit (lifelines not installed) the statistics of a frame are always
  computed.\<close>

lemma compute_without_cox:
  assumes "cox_p_value lib = None"
  shows "\<exists>a. compute_statistics_from_dataframe lib df tu = Inr a"
proof -
  obtain ei counts where s: "event_indicator_stage lib df (snd (resolve_columns df)) = Inr (ei, counts)"
    using stage_returns by blast
  obtain fc where "compute_feature_statistics lib df (feature_columns_of df) (fst (resolve_columns df)) ei
           (time_numeric_of lib df (fst (resolve_columns df))) = Inr fc"
    using feature_statistics_without_cox[OF assms] by blast
  then show ?thesis using s by (rule compute_returns[rotated])
qed

lemma stub_without_cox: "cox_p_value stub_numerics = None"
  by (simp add: stub_numerics_def)

lemma derived_indicator_empty:
  assumes "wf_table df" "df_empty df"
  shows "derived_indicator lib df cc = None"
proof (cases "columns df = []")
  case True
  then show ?thesis by (simp add: derived_indicator_def column_names_def)
next
  case False
  then have n0: "n_rows df = 0" using assms(2) by (simp add: df_empty_def)
  show ?thesis
  proof (rule ccontr)
    assume "derived_indicator lib df cc \<noteq> None"
    then obtain ind where i: "derived_indicator lib df cc = Some ind" by auto
    then obtain c where c: "get_column (columns df) (the cc) = Some c"
      and d: "derive_event_indicator lib (col_cells c) (the cc) = Some ind"
      by (auto simp: derived_indicator_def split: if_splits option.splits)
    have "col_cells c = []" using wf_table_length[OF assms(1) c] n0 by simp
    then show False using d by (simp add: derive_event_indicator_Some to_numeric_def dropna_def)
  qed
qed

lemma calculate_empty:
  assumes "loaded_frame st ds arg = Inr df" "df = None \<or> df_empty (the df)"
  shows "\<exists>res. calculate_and_store_dataset_statistics lib st now db ds arg
            = Inr (res, db(dataset_id ds \<mapsto> stats res)) \<and>
          general_stats (stats res) = empty_general_stats (time_unit ds) \<and>
          feature_correlations (stats res) = [] \<and>
          event_time_histogram (stats res) = []"
  using assms by (auto simp: calculate_and_store_dataset_statistics_def Let_def)

lemma calculate_nonempty:
  assumes "loaded_frame st ds arg = Inr (Some df)" "\<not> df_empty df"
  shows "calculate_and_store_dataset_statistics lib st now db ds arg = Inr (res, db') \<longleftrightarrow>
          (\<exists>a. compute_statistics_from_dataframe lib df (time_unit ds) = Inr a \<and>
               db' = db(dataset_id ds \<mapsto> stats res) \<and>
               dataframe res = Some df \<and>
               schema_version (stats res) = DATASET_STATS_SCHEMA_VERSION \<and>
               computed_at (stats res) = now \<and>
               general_stats (stats res) = general_stats a \<and>
               feature_correlations (stats res) = feature_correlations a \<and>
               event_time_histogram (stats res) = event_time_histogram a)"
  using assms
  by (cases res) (auto simp: calculate_and_store_dataset_statistics_def Let_def split: sum.splits)

lemma a_wf: "wf_table df_scenario_a"
  by (simp add: wf_table_def df_scenario_a_def num_col_def column_names_def)

lemma a_resolve: "resolve_columns df_scenario_a = (Some ''time'', Some ''censored'')"
  by (simp add: resolve_columns_def df_scenario_a_def num_col_def df_empty_def
      column_names_def TIME_CANDIDATES_def CENSOR_CANDIDATES_def truthy_def Let_def)

lemma lower_censored: "contains_str (lower ''censored'') ''censor''"
  by (simp add: lower_def lower_char_def)

lemma a_derived: "derived_indicator stub_numerics df_scenario_a (Some ''censored'') = Some [Fin 0, Fin 1, Fin 0]"
  using lower_censored
  by (simp add: derived_indicator_def truthy_def df_scenario_a_def num_col_def column_names_def
      derive_event_indicator_def to_numeric_def dropna_def notna_def Let_def)


subsection \<open>Count conservation\<close>

text \<open>
  Claim C1. For every loaded frame whose statistics are computed and stored: when the
  event indicator is derivable from the resolved event/censoring column, the stored
  \<open>num_events\<close> and \<open>num_censored\<close> add up to \<open>num_samples\<close>, and when it is not
  derivable (or no such column is resolved) both are null.
\<close>

theorem count_conservation:
  assumes wf: "wf_table df" and ld: "loaded_frame st ds arg = Inr (Some df)"
    and ok: "calculate_and_store_dataset_statistics lib st now db ds arg = Inr (res, db')"
  shows "db' (dataset_id ds) = Some (stats res) \<and>
         (case derived_indicator lib df (snd (resolve_columns df)) of
            Some ind \<Rightarrow>
              (\<exists>e c. num_events (general_stats (stats res)) = Some e \<and>
                     num_censored (general_stats (stats res)) = Some c \<and>
                     e + c = num_samples (general_stats (stats res)))
          | None \<Rightarrow>
              num_events (general_stats (stats res)) = None \<and>
              num_censored (general_stats (stats res)) = None)"
proof (cases "df_empty df")
  case True
  have "derived_indicator lib df (snd (resolve_columns df)) = None"
    using wf True by (rule derived_indicator_empty)
  moreover from calculate_empty[OF ld, of lib now db] True ok
  have "db' = db(dataset_id ds \<mapsto> stats res)"
    "general_stats (stats res) = empty_general_stats (time_unit ds)" by auto
  ultimately show ?thesis by (simp add: empty_general_stats_def)
next
  case False
  from ok calculate_nonempty[OF ld False, of lib now db res db']
  obtain a where a: "compute_statistics_from_dataframe lib df (time_unit ds) = Inr a"
    and db': "db' = db(dataset_id ds \<mapsto> stats res)"
    and gs: "general_stats (stats res) = general_stats a" by blast
  show ?thesis
  proof (cases "derived_indicator lib df (snd (resolve_columns df))")
    case None
    from compute_fields[OF stage_not_derived[OF None] a]
    show ?thesis using None db' gs by simp
  next
    case (Some ind)
    have v: "list_all zero_one_nan ind" "length ind = n_rows df"
      using derived_indicator_values[OF wf Some] by simp_all
    from compute_fields[OF stage_derived[OF Some v(1)] a]
    show ?thesis using Some db' gs count_bits[of ind] v(2) by simp
  qed
qed

lemma sample_loaded: "loaded_frame st ds (Some df) = Inr (Some df)"
  by (simp add: loaded_frame_def)

theorem count_conservation_witness:
  "wf_table df_scenario_a \<and>
   loaded_frame empty_storage sample_dataset (Some df_scenario_a) = Inr (Some df_scenario_a) \<and>
   (\<exists>res db'. calculate_and_store_dataset_statistics stub_numerics empty_storage 0 Map.empty
                 sample_dataset (Some df_scenario_a) = Inr (res, db') \<and>
          db' (dataset_id sample_dataset) = Some (stats res) \<and>
          (\<exists>e c. num_events (general_stats (stats res)) = Some e \<and>
                 num_censored (general_stats (stats res)) = Some c \<and>
                 e + c = num_samples (general_stats (stats res))))"
proof -
  have ne: "\<not> df_empty df_scenario_a" by (simp add: df_empty_def df_scenario_a_def)
  obtain a where "compute_statistics_from_dataframe stub_numerics df_scenario_a
                    (time_unit sample_dataset) = Inr a"
    using compute_without_cox[OF stub_without_cox] by blast
  then obtain res db' where r: "calculate_and_store_dataset_statistics stub_numerics empty_storage 0
      Map.empty sample_dataset (Some df_scenario_a) = Inr (res, db')"
    using ne by (simp add: calculate_and_store_dataset_statistics_def loaded_frame_def Let_def)
  show ?thesis
    using count_conservation[OF a_wf sample_loaded r] a_wf a_resolve a_derived r
    by (auto simp: loaded_frame_def)
qed

subsection \<open>Censoring-column inversion\<close>

text \<open>
  Claim C4. When the resolved event/censoring column has a name containing \<open>censor\<close>
  (in any letter case) and an indicator is derived from it (its numeric values, of which
  there is at least one, all lie in \<open>{0, 1}\<close>), the derived indicator is one minus the
  stored value: a stored 1 becomes 0 and a stored 0 becomes 1. The reported event count is
  then the number of rows where the column holds 0.
\<close>

theorem censoring_inversion:
  assumes wf: "wf_table df"
    and rc: "snd (resolve_columns df) = Some cname"
    and col: "get_column (columns df) cname = Some c"
    and nm: "contains_str (lower cname) ''censor''"
    and ne: "dropna (to_numeric lib (col_cells c)) \<noteq> []"
    and bin: "set (dropna (to_numeric lib (col_cells c))) \<subseteq> {Fin 0, Fin 1}"
    and ok: "compute_statistics_from_dataframe lib df tu = Inr a"
  shows "derive_event_indicator lib (col_cells c) cname
           = Some (map one_minus (to_numeric lib (col_cells c))) \<and>
         (\<forall>i < n_rows df. (to_numeric lib (col_cells c) ! i = Fin 1 \<longrightarrow>
                              map one_minus (to_numeric lib (col_cells c)) ! i = Fin 0) \<and>
                           (to_numeric lib (col_cells c) ! i = Fin 0 \<longrightarrow>
                              map one_minus (to_numeric lib (col_cells c)) ! i = Fin 1)) \<and>
         num_events (general_stats a)
           = Some (int (length (filter (\<lambda>v. v = Fin 0) (to_numeric lib (col_cells c)))))"
proof -
  let ?num = "to_numeric lib (col_cells c)"
  let ?ind = "map one_minus ?num"
  have len: "length ?num = n_rows df"
    using wf_table_length[OF wf col] by (simp add: to_numeric_def)
  have d: "derive_event_indicator lib (col_cells c) cname = Some ?ind"
    using nm ne bin by (simp add: derive_event_indicator_Some)
  have cn: "cname \<in> set (column_names df)"
    using get_column_mem[OF col] by (auto simp: column_names_def)
  have ne0: "cname \<noteq> []" using nm by (cases cname) (simp_all add: lower_def)
  have di: "derived_indicator lib df (snd (resolve_columns df)) = Some ?ind"
    using rc col cn ne0 d by (simp add: derived_indicator_def truthy_def)
  have z: "list_all zero_one_nan ?ind" using derive_event_indicator_values[OF d] by simp
  from compute_fields[OF stage_derived[OF di z] ok]
  have a: "num_events (general_stats a) = Some (int (length (filter (\<lambda>v. v = 1) (map as_bit ?ind))))"
    by simp
  have "length (filter (\<lambda>v. v = 1) (map as_bit (map one_minus vs))) = length (filter (\<lambda>v. v = Fin 0) vs)"
    if "list_all zero_one_nan vs" for vs
    using that by (induction vs) (auto simp: as_bit_def zero_one_nan_def)
  moreover have "list_all zero_one_nan ?num" using bin by (rule dropna_zero_one)
  ultimately have "length (filter (\<lambda>v. v = 1) (map as_bit ?ind)) = length (filter (\<lambda>v. v = Fin 0) ?num)"
    by blast
  then have ev: "num_events (general_stats a) = Some (int (length (filter (\<lambda>v. v = Fin 0) ?num)))"
    using a by simp
  have inv: "\<forall>i < n_rows df. (?num ! i = Fin 1 \<longrightarrow> ?ind ! i = Fin 0) \<and> (?num ! i = Fin 0 \<longrightarrow> ?ind ! i = Fin 1)"
    using len by simp
  show ?thesis using d inv ev by blast
qed

lemma a_column: "get_column (columns df_scenario_a) ''censored'' = Some (num_col ''censored'' [1, 0, 1])"
  by (simp add: df_scenario_a_def num_col_def)

theorem censoring_inversion_witness:
  "wf_table df_scenario_a \<and>
   snd (resolve_columns df_scenario_a) = Some ''censored'' \<and>
   get_column (columns df_scenario_a) ''censored'' = Some (num_col ''censored'' [1, 0, 1]) \<and>
   contains_str (lower ''censored'') ''censor'' \<and>
   to_numeric stub_numerics (col_cells (num_col ''censored'' [1, 0, 1])) = [Fin 1, Fin 0, Fin 1] \<and>
   derive_event_indicator stub_numerics (col_cells (num_col ''censored'' [1, 0, 1])) ''censored''
     = Some [Fin 0, Fin 1, Fin 0] \<and>
   (\<exists>a. compute_statistics_from_dataframe stub_numerics df_scenario_a ''day'' = Inr a \<and>
        num_events (general_stats a) = Some 1)"
proof -
  have n: "to_numeric stub_numerics (col_cells (num_col ''censored'' [1, 0, 1])) = [Fin 1, Fin 0, Fin 1]"
    by (simp add: to_numeric_def num_col_def)
  have r: "snd (resolve_columns df_scenario_a) = Some ''censored''" by (simp add: a_resolve)
  have ne: "dropna (to_numeric stub_numerics (col_cells (num_col ''censored'' [1, 0, 1]))) \<noteq> []"
    by (simp add: n dropna_def notna_def)
  have b: "set (dropna (to_numeric stub_numerics (col_cells (num_col ''censored'' [1, 0, 1])))) \<subseteq> {Fin 0, Fin 1}"
    by (simp add: n dropna_def notna_def)
  obtain a where a: "compute_statistics_from_dataframe stub_numerics df_scenario_a ''day'' = Inr a"
    using compute_without_cox[OF stub_without_cox] by blast
  show ?thesis
    using censoring_inversion[OF a_wf r a_column lower_censored ne b a] r a_wf a_column
      lower_censored a
    by (simp add: n)
qed

subsection \<open>Derivation failure\<close>

text \<open>
  Claim C5. When the resolved event/censoring column has no numeric value at all, or its
  numeric values are not all in \<open>{0, 1}\<close>, the derivation fails and the indicator
  handed on is 1 on every row. The statistics computed have the feature correlations and
  the histogram of that all-ones indicator, and \<open>num_events\<close> and \<open>num_censored\<close>
  stay null.
\<close>

theorem derivation_failure_default:
  assumes rc: "resolve_columns df = (tc, Some cname)"
    and col: "get_column (columns df) cname = Some c"
    and bad: "dropna (to_numeric lib (col_cells c)) = [] \<or>
              \<not> set (dropna (to_numeric lib (col_cells c))) \<subseteq> {Fin 0, Fin 1}"
    and ok: "compute_statistics_from_dataframe lib df tu = Inr a"
  shows "derive_event_indicator lib (col_cells c) cname = None \<and>
         event_indicator_stage lib df (Some cname) = Inr (replicate (n_rows df) 1, None) \<and>
         num_events (general_stats a) = None \<and>
         num_censored (general_stats a) = None \<and>
         compute_feature_statistics lib df (feature_columns_of df) tc
           (replicate (n_rows df) 1) (time_numeric_of lib df tc) = Inr (feature_correlations a) \<and>
         event_time_histogram a =
           build_event_time_histogram (time_numeric_of lib df tc) (replicate (n_rows df) 1)"
proof -
  have d: "derive_event_indicator lib (col_cells c) cname = None"
    using bad by (simp add: derive_event_indicator_None)
  have n: "derived_indicator lib df (snd (resolve_columns df)) = None"
    using rc col d by (simp add: derived_indicator_def)
  from compute_fields[OF stage_not_derived[OF n] ok] stage_not_derived[OF n] rc d
  show ?thesis by simp
qed

lemma three_resolve: "resolve_columns df_three_states = (Some ''time'', Some ''status'')"
  by (simp add: resolve_columns_def df_three_states_def num_col_def df_empty_def
      column_names_def TIME_CANDIDATES_def CENSOR_CANDIDATES_def truthy_def Let_def)

lemma three_column: "get_column (columns df_three_states) ''status'' = Some (num_col ''status'' [0, 1, 2])"
  by (simp add: df_three_states_def num_col_def)

theorem derivation_failure_default_witness:
  "resolve_columns df_three_states = (Some ''time'', Some ''status'') \<and>
   get_column (columns df_three_states) ''status'' = Some (num_col ''status'' [0, 1, 2]) \<and>
   \<not> set (dropna (to_numeric stub_numerics (col_cells (num_col ''status'' [0, 1, 2])))) \<subseteq> {Fin 0, Fin 1} \<and>
   derive_event_indicator stub_numerics (col_cells (num_col ''status'' [0, 1, 2])) ''status'' = None \<and>
   event_indicator_stage stub_numerics df_three_states (Some ''status'') = Inr ([1, 1, 1], None) \<and>
   (\<exists>a. compute_statistics_from_dataframe stub_numerics df_three_states ''day'' = Inr a \<and>
        num_events (general_stats a) = None \<and>
        num_censored (general_stats a) = None \<and>
        event_time_histogram a =
          build_event_time_histogram (Some [Fin 10, Fin 15, Fin 20]) [1, 1, 1])"
proof -
  have b: "\<not> set (dropna (to_numeric stub_numerics (col_cells (num_col ''status'' [0, 1, 2])))) \<subseteq> {Fin 0, Fin 1}"
    by (simp add: to_numeric_def num_col_def dropna_def notna_def)
  then have b': "dropna (to_numeric stub_numerics (col_cells (num_col ''status'' [0, 1, 2]))) = [] \<or>
    \<not> set (dropna (to_numeric stub_numerics (col_cells (num_col ''status'' [0, 1, 2])))) \<subseteq> {Fin 0, Fin 1}"
    by simp
  have tn: "time_numeric_of stub_numerics df_three_states (Some ''time'') = Some [Fin 10, Fin 15, Fin 20]"
    by (simp add: time_numeric_of_def truthy_def df_three_states_def num_col_def column_names_def to_numeric_def)
  have n: "replicate (n_rows df_three_states) (1::int) = [1, 1, 1]"
    by (simp add: df_three_states_def numeral_3_eq_3)
  obtain a where a: "compute_statistics_from_dataframe stub_numerics df_three_states ''day'' = Inr a"
    using compute_without_cox[OF stub_without_cox] by blast
  show ?thesis
    using derivation_failure_default[OF three_resolve three_column b' a]
      three_resolve three_column b a
    unfolding tn n by blast
qed

subsection \<open>Rows with a missing event entry\<close>

text \<open>
  Claim C10. When the event indicator is derivable, the integer indicator still has one
  entry per row; a row whose event entry is missing or is no number gets 0 and is counted
  in \<open>num_censored\<close>, so \<open>num_events + num_censored = num_samples\<close> holds also
  then.
\<close>

theorem missing_event_rows_censored:
  assumes wf: "wf_table df"
    and rc: "snd (resolve_columns df) = Some cname"
    and col: "get_column (columns df) cname = Some c"
    and der: "derived_indicator lib df (Some cname) = Some ind"
    and ok: "compute_statistics_from_dataframe lib df tu = Inr a"
  shows "\<exists>ei e cz.
           event_indicator_stage lib df (Some cname) = Inr (ei, Some (e, cz)) \<and>
           length ei = n_rows df \<and>
           (\<forall>i < n_rows df. to_numeric lib (col_cells c) ! i = NaN \<longrightarrow> ei ! i = 0) \<and>
           cz = int (length (filter (\<lambda>v. v = 0) ei)) \<and>
           num_events (general_stats a) = Some e \<and>
           num_censored (general_stats a) = Some cz \<and>
           e + cz = num_samples (general_stats a)"
proof -
  let ?num = "to_numeric lib (col_cells c)"
  let ?ei = "map as_bit ind"
  have v: "list_all zero_one_nan ind" "length ind = n_rows df"
    using derived_indicator_values[OF wf der] by simp_all
  have d: "derive_event_indicator lib (col_cells c) cname = Some ind"
    using der col by (simp add: derived_indicator_def split: if_splits)
  then have ind: "ind = (if contains_str (lower cname) ''censor'' then map one_minus ?num else ?num)"
    by (simp add: derive_event_indicator_Some)
  have len: "length ?num = n_rows df" using v(2) ind by (simp split: if_splits)
  have nan: "\<forall>i < n_rows df. ?num ! i = NaN \<longrightarrow> ?ei ! i = 0"
    using ind len v(2) by (auto simp: as_bit_def)
  have st: "event_indicator_stage lib df (Some cname) =
          Inr (?ei, Some (int (length (filter (\<lambda>v. v = 1) ?ei)), int (length (filter (\<lambda>v. v = 0) ?ei))))"
    using stage_derived[OF der v(1)] .
  from compute_fields[of lib df ?ei _ tu a] st rc ok
  have a: "num_samples (general_stats a) = int (n_rows df)"
    "num_events (general_stats a) = Some (int (length (filter (\<lambda>v. v = 1) ?ei)))"
    "num_censored (general_stats a) = Some (int (length (filter (\<lambda>v. v = 0) ?ei)))"
    by simp_all
  have sum: "int (length (filter (\<lambda>v. v = 1) ?ei)) + int (length (filter (\<lambda>v. v = 0) ?ei))
      = num_samples (general_stats a)"
    using count_bits[of ind] v(2) a(1) by simp
  show ?thesis
    using st v(2) nan a(2,3) sum by (intro exI[of _ ?ei] exI conjI) simp_all
qed

lemma missing_wf: "wf_table df_missing_event"
  by (simp add: wf_table_def df_missing_event_def num_col_def column_names_def)

lemma missing_resolve: "resolve_columns df_missing_event = (Some ''time'', Some ''status'')"
  by (simp add: resolve_columns_def df_missing_event_def num_col_def df_empty_def
      column_names_def TIME_CANDIDATES_def CENSOR_CANDIDATES_def truthy_def Let_def)

lemma missing_column:
  "get_column (columns df_missing_event) ''status''
     = Some \<lparr>col_name = ''status'', col_dtype = Object_dtype,
             col_cells = [Str ''1'', Num NaN, Str ''lost'']\<rparr>"
  by (simp add: df_missing_event_def num_col_def)

lemma missing_derived:
  "derived_indicator stub_numerics df_missing_event (Some ''status'') = Some [Fin 1, NaN, NaN]"
  by (simp add: derived_indicator_def truthy_def df_missing_event_def num_col_def column_names_def
      derive_event_indicator_def to_numeric_def dropna_def notna_def Let_def stub_numerics_def
      lower_def lower_char_def)

theorem missing_event_rows_censored_witness:
  "wf_table df_missing_event \<and>
   snd (resolve_columns df_missing_event) = Some ''status'' \<and>
   derived_indicator stub_numerics df_missing_event (Some ''status'') = Some [Fin 1, NaN, NaN] \<and>
   event_indicator_stage stub_numerics df_missing_event (Some ''status'') = Inr ([1, 0, 0], Some (1, 2)) \<and>
   (\<exists>a. compute_statistics_from_dataframe stub_numerics df_missing_event ''day'' = Inr a \<and>
        num_events (general_stats a) = Some 1 \<and>
        num_censored (general_stats a) = Some 2 \<and>
        num_samples (general_stats a) = 3)"
proof -
  have r: "snd (resolve_columns df_missing_event) = Some ''status''" by (simp add: missing_resolve)
  have s: "event_indicator_stage stub_numerics df_missing_event (Some ''status'') = Inr ([1, 0, 0], Some (1, 2))"
    by (simp add: event_indicator_stage_def missing_derived astype_int_def fillna0_def is_fin_def trunc_def)
  obtain a where a: "compute_statistics_from_dataframe stub_numerics df_missing_event ''day'' = Inr a"
    using compute_without_cox[OF stub_without_cox] by blast
  show ?thesis
    using missing_event_rows_censored[OF missing_wf r missing_column missing_derived a]
      missing_wf r missing_derived s a
    by auto
qed

subsection \<open>Resolved columns\<close>

lemma find_column_excluded:
  "find_column df cands (Some ex) = Some n \<Longrightarrow> n \<notin> ex"
  by (induction cands) (auto split: if_splits)

lemma find_column_candidate:
  "find_column df cands ex = Some n \<Longrightarrow> n \<in> set cands \<and> n \<in> set (column_names df)"
  by (induction cands) (auto split: if_splits)

lemma first_filtered:
  "(case filter P xs of [] \<Rightarrow> None | c # r \<Rightarrow> Some c) = Some c \<Longrightarrow> P c"
  by (induction xs) (simp_all split: if_splits)

lemma resolve_columns_distinct_named_time:
  assumes "find_column df TIME_CANDIDATES None = Some t"
  shows "fst (resolve_columns df) = Some t \<and> snd (resolve_columns df) \<noteq> Some t"
proof -
  have "t \<in> set TIME_CANDIDATES" using find_column_candidate[OF assms] by simp
  then have t: "t \<noteq> []" by (auto simp: TIME_CANDIDATES_def)
  define c0 where "c0 = find_column df CENSOR_CANDIDATES (Some {t})"
  have ex: "c0 \<noteq> Some t"
    using find_column_excluded[of df CENSOR_CANDIDATES "{t}" t] by (auto simp: c0_def)
  define fb where "fb = (case filter (\<lambda>col. Some col \<noteq> Some t) (tl (column_names df)) of
                           [] \<Rightarrow> None | c # r \<Rightarrow> Some c)"
  have fbn: "fb \<noteq> Some t"
    using first_filtered[of "\<lambda>col. Some col \<noteq> Some t" "tl (column_names df)" t]
    by (auto simp: fb_def)
  have r: "resolve_columns df = (Some t, if c0 = None \<and> 1 < length (columns df) then fb else c0)"
    using assms t by (simp add: resolve_columns_def Let_def truthy_def c0_def fb_def)
  show ?thesis using r ex fbn by simp
qed

text \<open>
  Claim C9 (resolved event/censoring column is never the resolved time column). The
  candidate search for the event column runs before the positional fallback for the time
  column, so a frame with no time-named column whose first column is named \<open>event\<close>
  resolves both roles to that one column.
\<close>

theorem resolve_columns_same_column:
  "wf_table df_event_first \<and> \<not> df_empty df_event_first \<and>
   resolve_columns df_event_first = (Some ''event'', Some ''event'')"
  by (simp add: resolve_columns_def df_event_first_def num_col_def wf_table_def df_empty_def
      column_names_def TIME_CANDIDATES_def CENSOR_CANDIDATES_def truthy_def Let_def)


subsection \<open>Cached statistics\<close>


lemma read_dataset_raises:
  assumes "file_path ds = Some path" "path \<noteq> []" "get_full_path st path = Inl exc"
  shows "read_dataset_into_dataframe st ds = Inl exc"
  using assms by (simp add: read_dataset_into_dataframe_def)




text \<open>With the frame asked for and a stored path outside the root, the cached path raises.\<close>

lemma cached_row_loader_raises:
  "ensure_dataset_statistics lib empty_storage now [2 \<mapsto> cached_row] outside_dataset
     False None True = Inl SuspiciousFileOperation"
  by (simp add: ensure_dataset_statistics_def read_dataset_into_dataframe_def outside_dataset_def
      empty_storage_def cached_row_def DATASET_STATS_SCHEMA_VERSION_def)

subsection \<open>No data\<close>

text \<open>
  For a dataset with no file, or with a stored path that resolves inside the storage root
  and whose file is missing, cannot be read or yields an empty frame, the computation ends
  without an error and stores a row with \<open>num_samples = 0\<close>, \<open>num_features = 0\<close>,
  every time statistic null, and empty lists of feature correlations and histogram bins.
\<close>

lemma no_data_statistics:
  assumes "file_path ds = None \<or>
           (\<exists>p. file_path ds = Some p \<and>
                (p = [] \<or>
                 (\<exists>full. get_full_path st p = Inr full \<and>
                   (\<not> file_exists st p \<or>
                    read_csv st full (separator_of p) = FileNotFoundError \<or>
                    read_csv st full (separator_of p) = OtherException \<or>
                    (\<exists>df. read_csv st full (separator_of p) = Loaded df \<and> df_empty df)))))"
  shows "\<exists>res. calculate_and_store_dataset_statistics lib st now db ds None
            = Inr (res, db(dataset_id ds \<mapsto> stats res)) \<and>
          num_samples (general_stats (stats res)) = 0 \<and>
          num_features (general_stats (stats res)) = 0 \<and>
          time_min (general_stats (stats res)) = None \<and>
          time_max (general_stats (stats res)) = None \<and>
          time_mean (general_stats (stats res)) = None \<and>
          time_median (general_stats (stats res)) = None \<and>
          feature_correlations (stats res) = [] \<and>
          event_time_histogram (stats res) = []"
proof -
  have "\<exists>df. loaded_frame st ds None = Inr df \<and> (df = None \<or> df_empty (the df))"
    using assms
    by (auto simp: loaded_frame_def read_dataset_into_dataframe_def
        split: option.splits read_outcome.splits)
  then obtain df where "loaded_frame st ds None = Inr df" "df = None \<or> df_empty (the df)"
    by blast
  from calculate_empty[OF this, of lib now db]
  show ?thesis by (auto simp: empty_general_stats_def)
qed

text \<open>
  Claim C8 (no file, a missing file or an unreadable file never raises and a zero record
  is stored). The loader resolves the stored path before its \<open>try\<close> block, so for a
  dataset whose stored path leaves the storage root and whose file is missing the
  exception leaves the loader and the computation: nothing is returned and nothing is
  stored.
\<close>

theorem missing_file_outside_root_raises:
  "file_path outside_dataset = Some ''../outside.csv'' \<and>
   \<not> file_exists empty_storage ''../outside.csv'' \<and>
   get_full_path empty_storage ''../outside.csv'' = Inl SuspiciousFileOperation \<and>
   read_dataset_into_dataframe empty_storage outside_dataset = Inl SuspiciousFileOperation \<and>
   calculate_and_store_dataset_statistics stub_numerics empty_storage 9 Map.empty
     outside_dataset None = Inl SuspiciousFileOperation"
  by (simp add: calculate_and_store_dataset_statistics_def loaded_frame_def
      read_dataset_into_dataframe_def outside_dataset_def empty_storage_def)

subsection \<open>The histogram\<close>

lemma length_bin_counts: "length (bin_counts es xs) = length es - 1"
  by (induction es xs rule: bin_counts.induct) simp_all

lemma filter_split_count:
  assumes "\<And>x. R x \<longleftrightarrow> P x \<or> Q x" "\<And>x. \<not> (P x \<and> Q x)"
  shows "int (length (filter P xs)) + int (length (filter Q xs)) = int (length (filter R xs))"
  using assms by (induction xs) auto

lemma sum_bin_counts:
  "sorted (lo # hi # es) \<Longrightarrow>
   sum_list (bin_counts (lo # hi # es) xs)
     = int (length (filter (\<lambda>x. lo \<le> x \<and> x \<le> last (hi # es)) xs))"
proof (induction es arbitrary: lo hi)
  case Nil
  then show ?case by simp
next
  case (Cons e es)
  have s: "sorted (hi # e # es)" using Cons.prems by simp
  have lh: "lo \<le> hi" using Cons.prems by simp
  have hl: "hi \<le> last (e # es)" using s by (metis last_in_set list.distinct(1) sorted_simps(2))
  have "sum_list (bin_counts (lo # hi # e # es) xs)
      = int (length (filter (\<lambda>x. lo \<le> x \<and> x < hi) xs))
        + int (length (filter (\<lambda>x. hi \<le> x \<and> x \<le> last (e # es)) xs))"
    using Cons.IH[OF s] by simp
  also have "\<dots> = int (length (filter (\<lambda>x. lo \<le> x \<and> x \<le> last (e # es)) xs))"
    by (rule filter_split_count) (use lh hl in auto)
  finally show ?case by simp
qed

lemma length_linspace: "length (linspace lo hi bins) = bins + 1"
  by (simp add: linspace_def)

lemma linspace_strict:
  assumes "lo < hi" "0 < bins"
  shows "sorted_wrt (<) (linspace lo hi bins)"
proof -
  have "lo + (hi - lo) * real i / real bins < lo + (hi - lo) * real j / real bins"
    if "i < j" for i j :: nat
    using that assms by (simp add: divide_strict_right_mono)
  then show ?thesis
    unfolding linspace_def sorted_wrt_map
    by (intro sorted_wrt_mono_rel[OF _ sorted_wrt_upt]) auto
qed

lemma linspace_ends:
  assumes "0 < bins"
  shows "linspace lo hi bins = lo # tl (linspace lo hi bins) \<and> last (linspace lo hi bins) = hi"
proof -
  have "linspace lo hi bins = map (\<lambda>i. lo + (hi - lo) * real i / real bins) (0 # [1..<bins + 1])"
    unfolding linspace_def by (simp add: upt_conv_Cons)
  then have a: "linspace lo hi bins = lo # tl (linspace lo hi bins)" by simp
  have "last (linspace lo hi bins) = lo + (hi - lo) * real bins / real bins"
    unfolding linspace_def by (simp add: last_map)
  then show ?thesis using a assms by simp
qed

lemma finite_values_all:
  "list_all is_fin a \<Longrightarrow> length (finite_values a) = length a"
  by (induction a) (auto simp: finite_values_def is_fin_def split: pyfloat.splits)

lemma positions_filter:
  "map (\<lambda>i. xs ! i) (filter (\<lambda>i. P (xs ! i)) [0..<length xs]) = filter P xs"
proof (induction xs rule: rev_induct)
  case Nil
  then show ?case by simp
next
  case (snoc x xs)
  have "filter (\<lambda>i. P ((xs @ [x]) ! i)) [0..<length xs] = filter (\<lambda>i. P (xs ! i)) [0..<length xs]"
    by (rule filter_cong) (auto simp: nth_append)
  moreover have "map (\<lambda>i. (xs @ [x]) ! i) (filter (\<lambda>i. P (xs ! i)) [0..<length xs])
      = map (\<lambda>i. xs ! i) (filter (\<lambda>i. P (xs ! i)) [0..<length xs])"
    by (rule map_cong) (auto simp: nth_append)
  ultimately show ?case using snoc by (simp add: nth_append)
qed

lemma np_histogram_ok:
  assumes "1 \<le> bins" "list_all is_fin a" "a \<noteq> []"
  shows "\<exists>tc be. np_histogram a bins = Inr (tc, be) \<and>
           length tc = nat bins \<and> length be = nat bins + 1 \<and>
           sorted_wrt (<) be \<and> sum_list tc = int (length a) \<and>
           tc = bin_counts be (finite_values a)"
proof -
  define xs where "xs = finite_values a"
  have len: "length xs = length a" using assms(2) by (simp add: xs_def finite_values_all)
  then have ne: "xs \<noteq> []" using assms(3) by auto
  define lo0 where "lo0 = Min (set xs)"
  define hi0 where "hi0 = Max (set xs)"
  define lo where "lo = (if lo0 = hi0 then lo0 - 1 / 2 else lo0)"
  define hi where "hi = (if lo0 = hi0 then hi0 + 1 / 2 else hi0)"
  define be where "be = linspace lo hi (nat bins)"
  have b0: "0 < nat bins" using assms(1) by simp
  have le0: "lo0 \<le> hi0" using ne by (simp add: lo0_def hi0_def)
  have lt: "lo < hi" using le0 by (auto simp: lo_def hi_def)
  have rng: "\<forall>x \<in> set xs. lo \<le> x \<and> x \<le> hi"
  proof
    fix x assume "x \<in> set xs"
    then have "lo0 \<le> x" "x \<le> hi0" by (simp_all add: lo0_def hi0_def)
    then show "lo \<le> x \<and> x \<le> hi" by (auto simp: lo_def hi_def)
  qed
  have h: "np_histogram a bins = Inr (bin_counts be xs, be)"
    using assms ne
    by (simp add: np_histogram_def Let_def xs_def[symmetric] lo0_def[symmetric] hi0_def[symmetric]
        be_def lo_def hi_def)
  have st: "sorted_wrt (<) be" unfolding be_def by (rule linspace_strict[OF lt b0])
  have lb: "length be = nat bins + 1" by (simp add: be_def length_linspace)
  have ends: "be = lo # tl be" "last be = hi"
    using linspace_ends[OF b0, of lo hi] by (simp_all add: be_def)
  obtain e1 es where tl: "tl be = e1 # es"
    using lb b0 by (cases "tl be") (auto simp: length_Suc_conv)
  have be': "be = lo # e1 # es" using ends(1) tl by simp
  have "sorted be" using st by (rule sorted_wrt_mono_rel[rotated]) simp
  then have "sum_list (bin_counts be xs) = int (length (filter (\<lambda>x. lo \<le> x \<and> x \<le> last (e1 # es)) xs))"
    unfolding be' by (rule sum_bin_counts)
  moreover have "last (e1 # es) = hi" using ends(2) be' by (metis last_ConsR list.distinct(1))
  moreover have "filter (\<lambda>x. lo \<le> x \<and> x \<le> hi) xs = xs" using rng by (simp add: filter_id_conv)
  ultimately have sm: "sum_list (bin_counts be xs) = int (length a)" using len by simp
  have lc: "length (bin_counts be xs) = nat bins" by (simp add: length_bin_counts lb)
  show ?thesis using h lc lb st sm by (auto simp: xs_def)
qed


lemma bin_count_range:
  "5 \<le> determine_histogram_bin_count n \<and> determine_histogram_bin_count n \<le> 20"
  by (simp add: determine_histogram_bin_count_def MIN_HISTOGRAM_BINS_def MAX_HISTOGRAM_BINS_def Let_def)

lemma valid_times_dropna:
  "map (\<lambda>i. tn ! i) (filter (\<lambda>i. notna (tn ! i)) [0..<length tn]) = dropna tn"
  unfolding dropna_def by (rule positions_filter)

lemma valid_index_empty:
  "filter (\<lambda>i. notna (tn ! i)) [0..<length tn] = [] \<longleftrightarrow> dropna tn = []"
  using valid_times_dropna[of tn] by (metis map_is_Nil_conv)

lemma build_histogram_no_valid:
  "dropna tn = [] \<Longrightarrow> build_event_time_histogram (Some tn) ei = []"
  by (simp add: build_event_time_histogram_def Let_def valid_times_dropna valid_index_empty)

lemma build_histogram_not_finite:
  "\<not> list_all is_fin (dropna tn) \<Longrightarrow> build_event_time_histogram (Some tn) ei = []"
  by (simp add: build_event_time_histogram_def Let_def valid_times_dropna valid_index_empty
      np_histogram_def)

lemma build_histogram_shape:
  assumes ne: "dropna tn \<noteq> []" and fin: "list_all is_fin (dropna tn)"
  shows "\<exists>tc ec be.
           build_event_time_histogram (Some tn) ei
             = map (\<lambda>idx. \<lparr>bin_start = be ! idx, bin_end = be ! (idx + 1), count = tc ! idx,
                            events = ec ! idx, censored = tc ! idx - ec ! idx\<rparr>)
                 [0..<length tc] \<and>
           int (length tc) = determine_histogram_bin_count (int (length (dropna tn))) \<and>
           length ec = length tc \<and> length be = length tc + 1 \<and>
           sorted_wrt (<) be \<and> sum_list tc = int (length (dropna tn))"
proof -
  define bc where "bc = determine_histogram_bin_count (int (length (dropna tn)))"
  have bc1: "1 \<le> bc" using bin_count_range[of "int (length (dropna tn))"] by (simp add: bc_def)
  from np_histogram_ok[OF bc1 fin ne]
  obtain tc be where h: "np_histogram (dropna tn) bc = Inr (tc, be)"
    and ltc: "length tc = nat bc" and lbe: "length be = nat bc + 1"
    and st: "sorted_wrt (<) be" and sm: "sum_list tc = int (length (dropna tn))"
    by blast
  have so: "sorted be" using st by (rule sorted_wrt_mono_rel[rotated]) simp
  define evs where "evs = map fst (filter (\<lambda>(t, m). m = 1)
      (zip (dropna tn) (reindex_fill ei (filter (\<lambda>i. notna (tn ! i)) [0..<length tn]))))"
  define ec where "ec = bin_counts be (finite_values evs)"
  have e: "np_histogram_edges evs be = Inr ec" using so by (simp add: np_histogram_edges_def ec_def)
  have lec: "length ec = length tc" by (simp add: ec_def length_bin_counts lbe ltc)
  have cens: "map (\<lambda>idx. \<lparr>bin_start = be ! idx, bin_end = be ! (idx + 1), count = tc ! idx,
                            events = ec ! idx, censored = map2 (-) tc ec ! idx\<rparr>) [0..<length tc]
      = map (\<lambda>idx. \<lparr>bin_start = be ! idx, bin_end = be ! (idx + 1), count = tc ! idx,
                            events = ec ! idx, censored = tc ! idx - ec ! idx\<rparr>) [0..<length tc]"
    by (rule map_cong) (simp_all add: lec)
  have "build_event_time_histogram (Some tn) ei
      = map (\<lambda>idx. \<lparr>bin_start = be ! idx, bin_end = be ! (idx + 1), count = tc ! idx,
                            events = ec ! idx, censored = map2 (-) tc ec ! idx\<rparr>) [0..<length tc]"
    using ne h e
    by (simp add: build_event_time_histogram_def Let_def valid_times_dropna valid_index_empty
        bc_def[symmetric] evs_def[symmetric])
  then have b: "build_event_time_histogram (Some tn) ei
      = map (\<lambda>idx. \<lparr>bin_start = be ! idx, bin_end = be ! (idx + 1), count = tc ! idx,
                            events = ec ! idx, censored = tc ! idx - ec ! idx\<rparr>) [0..<length tc]"
    using cens by simp
  have lt: "int (length tc) = determine_histogram_bin_count (int (length (dropna tn)))"
    using ltc bc1 by (simp add: bc_def)
  have lbe': "length be = length tc + 1" using lbe ltc by simp
  show ?thesis
    by (intro exI[of _ tc] exI[of _ ec] exI[of _ be] conjI) (fact b lt lec lbe' st sm)+
qed

text \<open>
  Claim C2. In every non-empty histogram produced, each bin has
  \<open>events + censored = count\<close>, the counts of all bins add up to the number of valid
  (non-null, numeric) time values, and the bins come in increasing order of
  \<open>bin_start\<close>.
\<close>

theorem histogram_conservation:
  assumes "build_event_time_histogram time_numeric ei \<noteq> []"
  shows "\<exists>tn. time_numeric = Some tn \<and>
           list_all (\<lambda>b. events b + censored b = count b)
             (build_event_time_histogram time_numeric ei) \<and>
           sum_list (map count (build_event_time_histogram time_numeric ei))
             = int (length (dropna tn)) \<and>
           sorted_wrt (<) (map bin_start (build_event_time_histogram time_numeric ei))"
proof -
  from assms obtain tn where tn: "time_numeric = Some tn"
    by (cases time_numeric) (simp_all add: build_event_time_histogram_def)
  have ne: "dropna tn \<noteq> []" using assms tn build_histogram_no_valid by blast
  have fin: "list_all is_fin (dropna tn)" using assms tn build_histogram_not_finite by blast
  from build_histogram_shape[OF ne fin, of ei]
  obtain tc ec be where h: "build_event_time_histogram (Some tn) ei
             = map (\<lambda>idx. \<lparr>bin_start = be ! idx, bin_end = be ! (idx + 1), count = tc ! idx,
                            events = ec ! idx, censored = tc ! idx - ec ! idx\<rparr>)
                 [0..<length tc]"
    and lbe: "length be = length tc + 1" and st: "sorted_wrt (<) be"
    and sm: "sum_list tc = int (length (dropna tn))"
    by blast
  have c1: "list_all (\<lambda>b. events b + censored b = count b) (build_event_time_histogram (Some tn) ei)"
    unfolding h by (simp add: list_all_iff)
  have "map count (build_event_time_histogram (Some tn) ei) = map (\<lambda>idx. tc ! idx) [0..<length tc]"
    unfolding h by simp
  then have c2: "sum_list (map count (build_event_time_histogram (Some tn) ei)) = int (length (dropna tn))"
    using sm by (simp add: map_nth)
  have "map bin_start (build_event_time_histogram (Some tn) ei) = map (\<lambda>idx. be ! idx) [0..<length tc]"
    unfolding h by simp
  also have "\<dots> = take (length tc) be"
    using lbe by (intro nth_equalityI) simp_all
  finally have "map bin_start (build_event_time_histogram (Some tn) ei) = take (length tc) be" .
  then have c3: "sorted_wrt (<) (map bin_start (build_event_time_histogram (Some tn) ei))"
    using st by (simp add: sorted_wrt_take)
  show ?thesis using tn c1 c2 c3 by simp
qed

lemma build_histogram_length:
  assumes "dropna tn \<noteq> []" "list_all is_fin (dropna tn)"
  shows "int (length (build_event_time_histogram (Some tn) ei))
           = determine_histogram_bin_count (int (length (dropna tn)))"
proof -
  from build_histogram_shape[OF assms, of ei]
  obtain tc ec be where "build_event_time_histogram (Some tn) ei
             = map (\<lambda>idx. \<lparr>bin_start = be ! idx, bin_end = be ! (idx + 1), count = tc ! idx,
                            events = ec ! idx, censored = tc ! idx - ec ! idx\<rparr>)
                 [0..<length tc]"
    "int (length tc) = determine_histogram_bin_count (int (length (dropna tn)))"
    by blast
  then show ?thesis by simp
qed

lemma dropna_three: "dropna [Fin 10, Fin 15, Fin 20] = [Fin 10, Fin 15, Fin 20]"
  by (simp add: dropna_def notna_def)

lemma three_nonempty:
  "build_event_time_histogram (Some [Fin 10, Fin 15, Fin 20]) [0, 1, 0] \<noteq> []"
proof -
  have "int (length (build_event_time_histogram (Some [Fin 10, Fin 15, Fin 20]) [0, 1, 0]))
      = determine_histogram_bin_count (int (length (dropna [Fin 10, Fin 15, Fin 20])))"
    by (rule build_histogram_length) (simp_all add: dropna_three is_fin_def)
  then show ?thesis using bin_count_range[of "int (length (dropna [Fin 10, Fin 15, Fin 20]))"] by auto
qed

theorem histogram_conservation_witness:
  "build_event_time_histogram (Some [Fin 10, Fin 15, Fin 20]) [0, 1, 0] \<noteq> [] \<and>
   list_all (\<lambda>b. events b + censored b = count b)
     (build_event_time_histogram (Some [Fin 10, Fin 15, Fin 20]) [0, 1, 0]) \<and>
   sum_list (map count (build_event_time_histogram (Some [Fin 10, Fin 15, Fin 20]) [0, 1, 0])) = 3 \<and>
   sorted_wrt (<) (map bin_start (build_event_time_histogram (Some [Fin 10, Fin 15, Fin 20]) [0, 1, 0]))"
  using histogram_conservation[OF three_nonempty] three_nonempty by (simp add: dropna_three)

lemma det3: "determine_histogram_bin_count 3 = 5"
proof -
  have "\<lfloor>sqrt (of_int 3)\<rfloor> = (1::int)" by (rule floor_sqrt_eq) simp_all
  then show ?thesis
    by (simp add: determine_histogram_bin_count_def MIN_HISTOGRAM_BINS_def MAX_HISTOGRAM_BINS_def)
qed

lemma scenario_a_histogram:
  "build_event_time_histogram (Some [Fin 10, Fin 15, Fin 20]) [0, 1, 0] =
    [\<lparr>bin_start = 10, bin_end = 12, count = 1, events = 0, censored = 1\<rparr>,
     \<lparr>bin_start = 12, bin_end = 14, count = 0, events = 0, censored = 0\<rparr>,
     \<lparr>bin_start = 14, bin_end = 16, count = 1, events = 1, censored = 0\<rparr>,
     \<lparr>bin_start = 16, bin_end = 18, count = 0, events = 0, censored = 0\<rparr>,
     \<lparr>bin_start = 18, bin_end = 20, count = 1, events = 0, censored = 1\<rparr>]"
proof -
  have vi: "filter (\<lambda>i. notna ([Fin 10, Fin 15, Fin 20] ! i)) [0..<length [Fin 10, Fin 15, Fin 20]] = [0, 1, 2]"
    by (simp add: notna_def upt_rec numeral_3_eq_3)
  have ls: "linspace 10 20 5 = [10, 12, 14, 16, 18, 20]"
    by (simp add: linspace_def upt_rec)
  have h: "np_histogram [Fin 10, Fin 15, Fin 20] 5 = Inr ([1, 0, 1, 0, 1], [10, 12, 14, 16, 18, 20])"
    by (simp add: np_histogram_def is_fin_def finite_values_def Let_def ls)
  have e: "np_histogram_edges [Fin 15] [10, 12, 14, 16, 18, 20] = Inr [0, 0, 1, 0, 0]"
    by (simp add: np_histogram_edges_def finite_values_def)
  show ?thesis
    apply (simp only: build_event_time_histogram_def option.case Let_def vi)
    apply (simp add: det3 h reindex_fill_def e del: upt_Suc)
    apply (simp add: upt_rec)
    done
qed


subsection \<open>The number of bins\<close>

lemma round_sqrt_31: "round (sqrt 31) = 6"
proof (rule round_unique)
  have "sqrt 31 < 13 / 2" by (rule real_less_lsqrt) (simp_all add: power2_eq_square)
  then show "sqrt 31 - 1 / 2 < real_of_int 6" by simp
  have "(11 / 2)\<^sup>2 \<le> (31::real)" by (simp add: power2_eq_square)
  then have "11 / 2 \<le> sqrt 31" by (rule real_le_rsqrt)
  then show "real_of_int 6 \<le> sqrt 31 + 1 / 2" by simp
qed

lemma det31: "determine_histogram_bin_count 31 = 5"
proof -
  have "\<lfloor>sqrt (of_int 31)\<rfloor> = (5::int)" by (rule floor_sqrt_eq) simp_all
  then show ?thesis
    by (simp add: determine_histogram_bin_count_def MIN_HISTOGRAM_BINS_def MAX_HISTOGRAM_BINS_def)
qed

lemma dropna_fin: "dropna (map (\<lambda>i. Fin (f i)) xs) = map (\<lambda>i. Fin (f i)) xs"
  by (induction xs) (simp_all add: dropna_def notna_def)

lemma all_fin: "list_all is_fin (map (\<lambda>i. Fin (f i)) xs)"
  by (induction xs) (simp_all add: is_fin_def)

text \<open>
  Claim C3 as stated (the number of bins is \<open>clamp(round(sqrt(n)), 5, 20)\<close>) fails:
  for 31 valid time values the square root is about 5.57, which rounds to 6, but the code
  truncates it and the histogram has 5 bins.
\<close>

theorem bin_count_round_counterexample:
  "length (dropna (map (\<lambda>i. Fin (real i)) [0..<31])) = 31 \<and>
   int (length (build_event_time_histogram (Some (map (\<lambda>i. Fin (real i)) [0..<31]))
                  (replicate 31 1))) = 5 \<and>
   determine_histogram_bin_count 31 = 5 \<and>
   spec_bin_count 31 = 6"
proof -
  let ?tn = "map (\<lambda>i. Fin (real i)) [0..<31]"
  have l: "length (dropna ?tn) = 31" by (simp add: dropna_fin)
  then have ne: "dropna ?tn \<noteq> []" by auto
  have fin: "list_all is_fin (dropna ?tn)" unfolding dropna_fin by (rule all_fin)
  have "int (length (build_event_time_histogram (Some ?tn) (replicate 31 1)))
      = determine_histogram_bin_count (int (length (dropna ?tn)))"
    using ne fin by (rule build_histogram_length)
  then have h: "int (length (build_event_time_histogram (Some ?tn) (replicate 31 1))) = 5"
    using l det31 by simp
  have s: "spec_bin_count 31 = 6" using round_sqrt_31 by (simp add: spec_bin_count_def)
  show ?thesis using l h det31 s by simp
qed

lemma bin_count_floor:
  assumes "0 < n"
  shows "(determine_histogram_bin_count n = 5 \<or>
            determine_histogram_bin_count n * determine_histogram_bin_count n \<le> n) \<and>
         (determine_histogram_bin_count n = 20 \<or>
            n < (determine_histogram_bin_count n + 1) * (determine_histogram_bin_count n + 1))"
proof -
  define k where "k = \<lfloor>sqrt (of_int n)\<rfloor>"
  have k0: "0 \<le> k" using assms by (simp add: k_def)
  have "of_int k \<le> sqrt (of_int n)" by (simp add: k_def)
  then have "(of_int k)\<^sup>2 \<le> (sqrt (of_int n))\<^sup>2"
    using k0 by (intro power_mono) simp_all
  then have "(of_int (k * k) :: real) \<le> of_int n" using assms by (simp add: power2_eq_square)
  then have lo: "k * k \<le> n" by (simp only: of_int_le_iff)
  have "sqrt (of_int n) < of_int (k + 1)" unfolding k_def by linarith
  then have "(sqrt (of_int n))\<^sup>2 < (of_int (k + 1))\<^sup>2"
    using assms by (intro power_strict_mono) simp_all
  then have "(of_int n :: real) < of_int ((k + 1) * (k + 1))" using assms by (simp add: power2_eq_square)
  then have hi: "n < (k + 1) * (k + 1)" by (simp only: of_int_less_iff)
  have d: "determine_histogram_bin_count n = min 20 (max 5 k)"
    using assms by (simp add: determine_histogram_bin_count_def MIN_HISTOGRAM_BINS_def MAX_HISTOGRAM_BINS_def k_def Let_def)
  show ?thesis
  proof (cases "k < 5")
    case True
    have "(k + 1) * (k + 1) \<le> 5 * 5" using True k0 by (intro mult_mono) simp_all
    then show ?thesis using d True hi by simp
  next
    case False
    show ?thesis
    proof (cases "20 \<le> k")
      case True
      then have "determine_histogram_bin_count n = 20" using d by simp
      moreover have "20 * 20 \<le> k * k" using True by (intro mult_mono) simp_all
      ultimately show ?thesis using lo by simp
    next
      case F2: False
      then have "determine_histogram_bin_count n = k" using d False by simp
      then show ?thesis using lo hi False F2 by simp
    qed
  qed
qed

text \<open>
  Claim C3, amended. For a non-empty list of \<open>n\<close> valid time values the number of
  histogram bins used is \<open>clamp(floor(sqrt(n)), 5, 20)\<close>, the square root truncated
  to an integer and then clamped: it lies between 5 and 20, and unless it was clamped its
  square is at most \<open>n\<close> and the square of its successor exceeds \<open>n\<close>. A histogram
  that is produced has exactly that many bins.
\<close>

theorem histogram_bin_count:
  assumes "dropna tn \<noteq> []"
  shows "5 \<le> determine_histogram_bin_count (int (length (dropna tn))) \<and>
         determine_histogram_bin_count (int (length (dropna tn))) \<le> 20 \<and>
         (determine_histogram_bin_count (int (length (dropna tn))) = 5 \<or>
            determine_histogram_bin_count (int (length (dropna tn)))
              * determine_histogram_bin_count (int (length (dropna tn)))
              \<le> int (length (dropna tn))) \<and>
         (determine_histogram_bin_count (int (length (dropna tn))) = 20 \<or>
            int (length (dropna tn))
              < (determine_histogram_bin_count (int (length (dropna tn))) + 1)
                * (determine_histogram_bin_count (int (length (dropna tn))) + 1)) \<and>
         (build_event_time_histogram (Some tn) ei = [] \<or>
          int (length (build_event_time_histogram (Some tn) ei))
            = determine_histogram_bin_count (int (length (dropna tn))))"
proof -
  have n: "0 < int (length (dropna tn))" using assms by simp
  show ?thesis
    using bin_count_range[of "int (length (dropna tn))"] bin_count_floor[OF n]
      build_histogram_length[OF assms, of ei] build_histogram_not_finite[of tn ei]
    by auto
qed

lemma round_sqrt_45: "round (sqrt 45) = 7"
proof (rule round_unique)
  have "sqrt 45 < 15 / 2" by (rule real_less_lsqrt) (simp_all add: power2_eq_square)
  then show "sqrt 45 - 1 / 2 < real_of_int 7" by simp
  have "(13 / 2)\<^sup>2 \<le> (45::real)" by (simp add: power2_eq_square)
  then have "13 / 2 \<le> sqrt 45" by (rule real_le_rsqrt)
  then show "real_of_int 7 \<le> sqrt 45 + 1 / 2" by simp
qed

lemma det45: "determine_histogram_bin_count 45 = 6"
proof -
  have "\<lfloor>sqrt (of_int 45)\<rfloor> = (6::int)" by (rule floor_sqrt_eq) simp_all
  then show ?thesis
    by (simp add: determine_histogram_bin_count_def MIN_HISTOGRAM_BINS_def MAX_HISTOGRAM_BINS_def)
qed

theorem histogram_bin_count_witness:
  "dropna (map (\<lambda>i. Fin (real i)) [0..<45]) \<noteq> [] \<and>
   int (length (dropna (map (\<lambda>i. Fin (real i)) [0..<45]))) = 45 \<and>
   spec_bin_count 45 = 7 \<and>
   determine_histogram_bin_count 45 = 6 \<and>
   6 * 6 \<le> (45::int) \<and> (45::int) < (6 + 1) * (6 + 1) \<and>
   build_event_time_histogram (Some (map (\<lambda>i. Fin (real i)) [0..<45])) (replicate 45 1) \<noteq> [] \<and>
   int (length (build_event_time_histogram (Some (map (\<lambda>i. Fin (real i)) [0..<45]))
                  (replicate 45 1))) = 6"
proof -
  let ?tn = "map (\<lambda>i. Fin (real i)) [0..<45]"
  have l: "int (length (dropna ?tn)) = 45" by (simp add: dropna_fin)
  then have ne: "dropna ?tn \<noteq> []" by auto
  have fin: "list_all is_fin (dropna ?tn)" unfolding dropna_fin by (rule all_fin)
  have "int (length (build_event_time_histogram (Some ?tn) (replicate 45 1)))
      = determine_histogram_bin_count (int (length (dropna ?tn)))"
    using ne fin by (rule build_histogram_length)
  then have h: "int (length (build_event_time_histogram (Some ?tn) (replicate 45 1))) = 6"
    using l det45 by simp
  then have hne: "build_event_time_histogram (Some ?tn) (replicate 45 1) \<noteq> []" by auto
  have s: "spec_bin_count 45 = 7" using round_sqrt_45 by (simp add: spec_bin_count_def)
  show ?thesis
    using histogram_bin_count[OF ne, of "replicate 45 1"] l ne h hne s det45 by simp
qed

subsection \<open>Order of the feature records\<close>

lemma sort_key_row_null: "sort_key_row r = (True, 0) \<longleftrightarrow> abs_correlation r = None"
  by (auto simp: sort_key_row_def split: option.splits)

lemma sort_key_row_value: "sort_key_row r = (False, - a) \<longleftrightarrow> abs_correlation r = Some a"
  by (auto simp: sort_key_row_def split: option.splits)

lemma sorted_keys_layout:
  "sorted (map sort_key_row rs) \<Longrightarrow>
   rs = filter (\<lambda>r. abs_correlation r \<noteq> None) rs @ filter (\<lambda>r. abs_correlation r = None) rs \<and>
   sorted_wrt (\<lambda>a b. the (abs_correlation b) \<le> the (abs_correlation a))
     (filter (\<lambda>r. abs_correlation r \<noteq> None) rs)"
proof (induction rs)
  case Nil
  then show ?case by simp
next
  case (Cons r rs)
  have le: "\<forall>x \<in> set rs. sort_key_row r \<le> sort_key_row x" using Cons.prems by simp
  have IH: "rs = filter (\<lambda>r. abs_correlation r \<noteq> None) rs @ filter (\<lambda>r. abs_correlation r = None) rs"
    "sorted_wrt (\<lambda>a b. the (abs_correlation b) \<le> the (abs_correlation a))
     (filter (\<lambda>r. abs_correlation r \<noteq> None) rs)"
    using Cons by simp_all
  show ?case
  proof (cases "abs_correlation r")
    case None
    have "\<forall>x \<in> set rs. abs_correlation x = None"
    proof
      fix x assume "x \<in> set rs"
      then have "sort_key_row r \<le> sort_key_row x" using le by blast
      then show "abs_correlation x = None"
        using None by (auto simp: sort_key_row_def less_eq_prod_def split: option.splits)
    qed
    then have "filter (\<lambda>r. abs_correlation r \<noteq> None) rs = []" "filter (\<lambda>r. abs_correlation r = None) rs = rs"
      by (simp_all add: filter_empty_conv filter_id_conv)
    then show ?thesis using None by simp
  next
    case (Some a)
    have "\<forall>x \<in> set (filter (\<lambda>r. abs_correlation r \<noteq> None) rs). the (abs_correlation x) \<le> a"
    proof
      fix x assume x: "x \<in> set (filter (\<lambda>r. abs_correlation r \<noteq> None) rs)"
      then have "sort_key_row r \<le> sort_key_row x" using le by simp
      moreover obtain b where "abs_correlation x = Some b" using x by auto
      ultimately show "the (abs_correlation x) \<le> a"
        using Some by (auto simp: sort_key_row_def less_eq_prod_def split: if_splits)
    qed
    then show ?thesis using Some IH by simp
  qed
qed

text \<open>
  Claim C6. Every list of feature records computed is sorted: the records with a
  correlation come first, in descending order of \<open>abs_correlation\<close>, and those without
  follow. The sort is stable, so the records without a correlation (and those with equal
  correlation) keep the order of the feature columns.
\<close>

lemma feature_rows_features:
  "feature_rows lib df fcs tc ei tn = Inr rows \<Longrightarrow> map feature rows = map col_name fcs"
proof (induction fcs arbitrary: rows)
  case Nil
  then show ?case by simp
next
  case (Cons c fcs)
  from Cons.prems obtain row rest where r: "feature_row lib df tc ei tn c = Inr row"
    "feature_rows lib df fcs tc ei tn = Inr rest" "rows = row # rest"
    by (auto split: sum.splits)
  have "feature row = col_name c"
    using r(1) by (auto simp: feature_row_def Let_def split: sum.splits)
  then show ?case using Cons.IH[OF r(2)] r(3) by simp
qed

theorem feature_correlations_ordering:
  assumes "tc \<in> set (column_names df)"
    and "compute_feature_statistics lib df fcs (Some tc) ei tn = Inr rows"
  shows "\<exists>results.
           feature_rows lib df fcs tc ei tn = Inr results \<and>
           map feature results = map col_name fcs \<and>
           rows = filter (\<lambda>r. abs_correlation r \<noteq> None) rows
                  @ filter (\<lambda>r. abs_correlation r = None) rows \<and>
           sorted_wrt (\<lambda>a b. the (abs_correlation b) \<le> the (abs_correlation a))
             (filter (\<lambda>r. abs_correlation r \<noteq> None) rows) \<and>
           filter (\<lambda>r. abs_correlation r = None) rows
             = filter (\<lambda>r. abs_correlation r = None) results \<and>
           (\<forall>a. filter (\<lambda>r. abs_correlation r = Some a) rows
                = filter (\<lambda>r. abs_correlation r = Some a) results) \<and>
           length rows = length fcs"
proof -
  obtain u where u: "feature_rows lib df fcs tc ei tn = Inr u"
    and c: "rows = sort_key sort_key_row u"
  proof (cases "fcs = []")
    case True
    then show ?thesis using assms that[of "[]"] by (simp add: compute_feature_statistics_def)
  next
    case False
    then show ?thesis
      using assms that by (auto simp: compute_feature_statistics_def split: sum.splits)
  qed
  have f: "map feature u = map col_name fcs" using u by (rule feature_rows_features)
  have s: "sorted (map sort_key_row (sort_key sort_key_row u))" by (rule sorted_sort_key)
  have n: "filter (\<lambda>r. abs_correlation r = None) (sort_key sort_key_row u)
      = filter (\<lambda>r. abs_correlation r = None) u"
    using sort_key_stable[of sort_key_row "(True, 0)" u] by (simp add: sort_key_row_null)
  have v: "filter (\<lambda>r. abs_correlation r = Some a) (sort_key sort_key_row u)
      = filter (\<lambda>r. abs_correlation r = Some a) u" for a
    using sort_key_stable[of sort_key_row "(False, - a)" u] by (simp add: sort_key_row_value)
  have "length u = length fcs" using f by (metis length_map)
  then have l: "length (sort_key sort_key_row u) = length fcs" by simp
  show ?thesis
    unfolding c using u f sorted_keys_layout[OF s] n v l
    by (intro exI[of _ u] conjI) simp_all
qed

lemma features_time_col: "''time'' \<in> set (column_names df_features)"
  by (simp add: df_features_def column_names_def num_col_def)

lemma features_unsorted:
  "map_sum id (map (\<lambda>r. (feature r, abs_correlation r)))
     (feature_rows stub_numerics df_features (feature_columns_of df_features) ''time'' [0, 1, 0]
        (Some [Fin 10, Fin 15, Fin 20]))
   = Inr [(''notes'', None), (''f1'', Some (1 / 5)), (''f2'', Some (9 / 10))]"
  by (simp add: feature_columns_of_def df_features_def num_col_def feature_row_def
      cox_statistics_def Let_def stub_numerics_def notna_def nunique_def)

lemma features_sorted:
  "map_sum id (map (\<lambda>r. (feature r, abs_correlation r)))
     (compute_feature_statistics stub_numerics df_features (feature_columns_of df_features)
        (Some ''time'') [0, 1, 0] (Some [Fin 10, Fin 15, Fin 20]))
   = Inr [(''f2'', Some (9 / 10)), (''f1'', Some (1 / 5)), (''notes'', None)]"
  by (simp add: compute_feature_statistics_def column_names_def sort_key_row_def less_eq_prod_def
      feature_columns_of_def df_features_def num_col_def feature_row_def
      cox_statistics_def Let_def stub_numerics_def notna_def nunique_def)

theorem feature_correlations_ordering_witness:
  "''time'' \<in> set (column_names df_features) \<and>
   (\<exists>results rows.
      feature_rows stub_numerics df_features (feature_columns_of df_features) ''time''
        [0, 1, 0] (Some [Fin 10, Fin 15, Fin 20]) = Inr results \<and>
      compute_feature_statistics stub_numerics df_features (feature_columns_of df_features)
        (Some ''time'') [0, 1, 0] (Some [Fin 10, Fin 15, Fin 20]) = Inr rows \<and>
      map feature results = [''notes'', ''f1'', ''f2''] \<and>
      map feature rows = [''f2'', ''f1'', ''notes''] \<and>
      map abs_correlation rows = [Some (9 / 10), Some (1 / 5), None] \<and>
      sorted_wrt (\<lambda>a b. the (abs_correlation b) \<le> the (abs_correlation a))
        (filter (\<lambda>r. abs_correlation r \<noteq> None) rows))"
proof -
  obtain rows where r: "compute_feature_statistics stub_numerics df_features
      (feature_columns_of df_features) (Some ''time'') [0, 1, 0] (Some [Fin 10, Fin 15, Fin 20]) = Inr rows"
    using feature_statistics_without_cox[OF stub_without_cox] by blast
  from feature_correlations_ordering[OF features_time_col r]
  obtain results where u: "feature_rows stub_numerics df_features (feature_columns_of df_features)
      ''time'' [0, 1, 0] (Some [Fin 10, Fin 15, Fin 20]) = Inr results"
    and s: "sorted_wrt (\<lambda>a b. the (abs_correlation b) \<le> the (abs_correlation a))
        (filter (\<lambda>r. abs_correlation r \<noteq> None) rows)"
    by blast
  have "map (\<lambda>r. (feature r, abs_correlation r)) results
      = [(''notes'', None), (''f1'', Some (1 / 5)), (''f2'', Some (9 / 10))]"
    using features_unsorted u by simp
  from arg_cong[OF this, of "map fst"]
  have fu: "map feature results = [''notes'', ''f1'', ''f2'']" by (simp add: comp_def)
  have m: "map (\<lambda>r. (feature r, abs_correlation r)) rows
      = [(''f2'', Some (9 / 10)), (''f1'', Some (1 / 5)), (''notes'', None)]"
    using features_sorted r by simp
  from arg_cong[OF m, of "map fst"]
  have fs: "map feature rows = [''f2'', ''f1'', ''notes'']" by (simp add: comp_def)
  from arg_cong[OF m, of "map snd"]
  have as: "map abs_correlation rows = [Some (9 / 10), Some (1 / 5), None]" by (simp add: comp_def)
  show ?thesis
    by (intro conjI exI[of _ results] exI[of _ rows]) (fact features_time_col u r fu fs as s)+
qed

end
